theory Spec2Isabelle
  imports Main
begin

section \<open>JavaScript values\<close>

text \<open>
  The values that travel through the packet codec and the channel: the JSON-like data of
  JavaScript plus \<open>undefined\<close> and \<open>NaN\<close>. Numbers are the integers (ids, versions, sizes
  and status codes); the model agrees with IEEE doubles on the safe integers, and the
  theorems that depend on it say so. An object is a plain object with data properties
  only, written as the list of its properties (each key once) in the order \<open>Object.keys\<close>
  enumerates them. Arrays, functions and class instances are outside the model.
\<close>

datatype jsval =
    Undefined
  | Null
  | Bool bool
  | Num int
  | NaN
  | Str string
  | Obj "(string \<times> jsval) list"

text \<open>
  How a call completes: it returns a value, it throws, or it runs a member that the
  dispatch table inherits from \<open>Object.prototype\<close> (\<open>serializer['toString']\<close> and the
  like), whose effect is outside the model.
\<close>

datatype exn = TypeError

datatype 'a outcome = Returned 'a | Threw exn | Delegated string

fun bind :: "'a outcome \<Rightarrow> ('a \<Rightarrow> 'b outcome) \<Rightarrow> 'b outcome" where
  "bind (Returned x) f = f x"
| "bind (Threw e) f = Threw e"
| "bind (Delegated k) f = Delegated k"

text \<open>ToBoolean.\<close>

fun truthy :: "jsval \<Rightarrow> bool" where
  "truthy Undefined = False"
| "truthy Null = False"
| "truthy (Bool b) = b"
| "truthy (Num n) = (n \<noteq> 0)"
| "truthy NaN = False"
| "truthy (Str s) = (s \<noteq> [])"
| "truthy (Obj kvs) = True"

text \<open>\<open>undefined\<close> and \<open>null\<close> have no properties: reading one, or destructuring, throws.\<close>

definition nullish :: "jsval \<Rightarrow> bool" where
  "nullish v = (v = Undefined \<or> v = Null)"

text \<open>
  Number to string, for the integers below \<open>10^21\<close> in magnitude (JavaScript switches to
  exponent notation from there on).
\<close>

definition digit_char :: "nat \<Rightarrow> char" where
  "digit_char d = char_of (of_char CHR ''0'' + d)"

fun show_nat :: "nat \<Rightarrow> string" where
  "show_nat n =
     (if n < 10 then [digit_char n] else show_nat (n div 10) @ [digit_char (n mod 10)])"

declare show_nat.simps [simp del]

definition show_int :: "int \<Rightarrow> string" where
  "show_int i = (if i < 0 then CHR ''-'' # show_nat (nat (- i)) else show_nat (nat i))"

text \<open>
  The own enumerable properties of a value, in \<open>Object.keys\<close> order: those of an object,
  the indexed characters of a string, none for the other primitives.
\<close>

fun indexed :: "nat \<Rightarrow> string \<Rightarrow> (string \<times> jsval) list" where
  "indexed i [] = []"
| "indexed i (c # cs) = (show_nat i, Str [c]) # indexed (Suc i) cs"

fun own_props :: "jsval \<Rightarrow> (string \<times> jsval) list" where
  "own_props (Obj kvs) = kvs"
| "own_props (Str s) = indexed 0 s"
| "own_props _ = []"

text \<open>\<open>Object.keys(v).at(0)\<close>: the first key, or \<open>undefined\<close> (here \<open>None\<close>).\<close>

definition first_key :: "(string \<times> jsval) list \<Rightarrow> string option" where
  "first_key kvs = (case kvs of [] \<Rightarrow> None | (k, _) # _ \<Rightarrow> Some k)"

text \<open>
  Reading one of the protocol's field names from a non-nullish value. None of these
  names is a property of \<open>Object.prototype\<close> or of a primitive's wrapper, so a missing
  own property reads as \<open>undefined\<close>.
\<close>

fun get :: "jsval \<Rightarrow> string \<Rightarrow> jsval" where
  "get (Obj kvs) k = (case map_of kvs k of Some v \<Rightarrow> v | None \<Rightarrow> Undefined)"
| "get _ k = Undefined"

text \<open>
  ToString, as a template literal applies it. A plain object inherits
  \<open>Object.prototype.toString\<close>; when it carries an own data property \<open>toString\<close>, neither
  that nor \<open>valueOf\<close> yields a primitive and the conversion throws.
\<close>

fun to_string :: "jsval \<Rightarrow> string outcome" where
  "to_string Undefined = Returned ''undefined''"
| "to_string Null = Returned ''null''"
| "to_string (Bool b) = Returned (if b then ''true'' else ''false'')"
| "to_string (Num n) = Returned (show_int n)"
| "to_string NaN = Returned ''NaN''"
| "to_string (Str s) = Returned s"
| "to_string (Obj kvs) =
     (if map_of kvs ''toString'' = None then Returned ''[object Object]''
      else Threw TypeError)"

text \<open>\<open>String.prototype.split\<close> with a one-character separator.\<close>

fun split :: "char \<Rightarrow> string \<Rightarrow> string list" where
  "split sep [] = [[]]"
| "split sep (c # cs) =
     (if c = sep then [] # split sep cs
      else (case split sep cs of p # ps \<Rightarrow> (c # p) # ps | [] \<Rightarrow> [[c]]))"

text \<open>Array destructuring: the element at a position, or \<open>undefined\<close> (here \<open>None\<close>).\<close>

definition at :: "'a list \<Rightarrow> nat \<Rightarrow> 'a option" where
  "at xs i = (if i < length xs then Some (xs ! i) else None)"

text \<open>
  \<open>parseInt\<close> with no radix: leading white space (the ASCII one here), an optional sign,
  an optional \<open>0x\<close> prefix, then the longest run of digits of the radix; \<open>NaN\<close> when that
  run is empty.
\<close>

definition is_space :: "char \<Rightarrow> bool" where
  "is_space c = (c \<in> set [CHR '' '', CHR 0x09, CHR 0x0A, CHR 0x0B, CHR 0x0C, CHR 0x0D])"

definition in_range :: "char \<Rightarrow> char \<Rightarrow> char \<Rightarrow> bool" where
  "in_range lo hi c = ((of_char lo :: nat) \<le> of_char c \<and> (of_char c :: nat) \<le> of_char hi)"

definition digit_value :: "char \<Rightarrow> nat option" where
  "digit_value c =
     (if in_range CHR ''0'' CHR ''9'' c then Some (of_char c - of_char CHR ''0'')
      else if in_range CHR ''a'' CHR ''f'' c then Some (of_char c - of_char CHR ''a'' + 10)
      else if in_range CHR ''A'' CHR ''F'' c then Some (of_char c - of_char CHR ''A'' + 10)
      else None)"

definition is_digit :: "nat \<Rightarrow> char \<Rightarrow> bool" where
  "is_digit radix c = (case digit_value c of Some d \<Rightarrow> d < radix | None \<Rightarrow> False)"

definition digits_value :: "nat \<Rightarrow> string \<Rightarrow> nat" where
  "digits_value radix z = foldl (\<lambda>a c. radix * a + the (digit_value c)) 0 z"

definition strip_sign :: "string \<Rightarrow> bool \<times> string" where
  "strip_sign s =
     (case s of
        [] \<Rightarrow> (False, [])
      | c # r \<Rightarrow>
          if c = CHR ''-'' then (True, r)
          else if c = CHR ''+'' then (False, r)
          else (False, s))"

definition strip_prefix :: "string \<Rightarrow> nat \<times> string" where
  "strip_prefix s =
     (if take 2 s = ''0x'' \<or> take 2 s = ''0X'' then (16, drop 2 s) else (10, s))"

definition parseInt :: "string \<Rightarrow> jsval" where
  "parseInt s =
     (let (neg, s2) = strip_sign (dropWhile is_space s);
          (radix, s3) = strip_prefix s2;
          z = takeWhile (is_digit radix) s3
      in if z = [] then NaN
         else Num ((if neg then - 1 else 1) * int (digits_value radix z)))"

section \<open>The packet codec (protocol.js)\<close>

text \<open>
  An object literal with a computed key: the key is added after the fixed ones, and
  replaces the value of an equal fixed key in place. The computed keys of the codec hold a
  \<open>/\<close>, so none of them is an array index, which \<open>Object.keys\<close> would enumerate first.
\<close>

fun set_prop :: "string \<Rightarrow> jsval \<Rightarrow> (string \<times> jsval) list \<Rightarrow> (string \<times> jsval) list" where
  "set_prop k v [] = [(k, v)]"
| "set_prop k v ((k', v') # kvs) =
     (if k' = k then (k, v) # kvs else (k', v') # set_prop k v kvs)"

text \<open>
  \<open>serializer.call\<close>: the routing key is \<open>iface\<close>, then \<open>.ver\<close> when \<open>ver\<close> is truthy, then
  \<open>/method\<close>. Destructuring the argument throws on \<open>undefined\<close> and \<open>null\<close>.
\<close>

definition serializer_call :: "jsval \<Rightarrow> jsval outcome" where
  "serializer_call d =
     (if nullish d then Threw TypeError
      else
        bind (to_string (get d ''iface'')) (\<lambda>iface.
        bind (if truthy (get d ''ver'')
              then bind (to_string (get d ''ver'')) (\<lambda>ver. Returned (''.'' @ ver))
              else Returned '''') (\<lambda>ver.
        bind (to_string (get d ''method'')) (\<lambda>method.
          Returned (Obj (set_prop (iface @ ver @ ''/'' @ method) (get d ''args'')
                           [(''call'', get d ''callId'')]))))))"

definition serializer_callback :: "jsval \<Rightarrow> jsval outcome" where
  "serializer_callback d =
     (if nullish d then Threw TypeError
      else Returned (Obj [(''callback'', get d ''callId''), (''result'', get d ''result'')]))"

definition serializer_event :: "jsval \<Rightarrow> jsval outcome" where
  "serializer_event d =
     (if nullish d then Threw TypeError
      else
        bind (to_string (get d ''iface'')) (\<lambda>iface.
        bind (to_string (get d ''eventName'')) (\<lambda>eventName.
          Returned (Obj (set_prop (iface @ ''/'' @ eventName) (get d ''args'')
                           [(''event'', get d ''eventId'')])))))"

definition serializer_stream :: "jsval \<Rightarrow> jsval outcome" where
  "serializer_stream d =
     (if nullish d then Threw TypeError
      else Returned (Obj [(''stream'', get d ''streamId''), (''name'', get d ''name''),
                          (''size'', get d ''size''), (''status'', get d ''status'')]))"

definition serializer_error :: "jsval \<Rightarrow> jsval outcome" where
  "serializer_error d =
     (if nullish d then Threw TypeError
      else Returned (Obj [(''callback'', get d ''callId''),
                          (''error'', Obj [(''message'', get d ''message''),
                                           (''code'', get d ''code'')])]))"

text \<open>
  A lookup in one of the two dispatch tables \<open>serializer\<close> and \<open>deserializer\<close>: an own
  entry for the five kinds, an inherited member of \<open>Object.prototype\<close>, or nothing.
\<close>

datatype kind = Call | Callback | Event | Stream | Error

datatype slot = Own kind | Inherited | Missing

definition object_prototype_members :: "string list" where
  "object_prototype_members =
     [''constructor'', ''__defineGetter__'', ''__defineSetter__'', ''hasOwnProperty'',
      ''__lookupGetter__'', ''__lookupSetter__'', ''isPrototypeOf'',
      ''propertyIsEnumerable'', ''toString'', ''valueOf'', ''__proto__'',
      ''toLocaleString'']"

definition lookup :: "string \<Rightarrow> slot" where
  "lookup t =
     (if t = ''call'' then Own Call
      else if t = ''callback'' then Own Callback
      else if t = ''event'' then Own Event
      else if t = ''stream'' then Own Stream
      else if t = ''error'' then Own Error
      else if t \<in> set object_prototype_members then Inherited
      else Missing)"

fun serializer :: "kind \<Rightarrow> jsval \<Rightarrow> jsval outcome" where
  "serializer Call = serializer_call"
| "serializer Callback = serializer_callback"
| "serializer Event = serializer_event"
| "serializer Stream = serializer_stream"
| "serializer Error = serializer_error"

text \<open>\<open>serialize = (type, data) => serializer[type]?.(data) ?? null\<close>.\<close>

definition serialize :: "string \<Rightarrow> jsval \<Rightarrow> jsval outcome" where
  "serialize t d =
     (case lookup t of
        Own k \<Rightarrow> serializer k d
      | Inherited \<Rightarrow> Delegated t
      | Missing \<Rightarrow> Returned Null)"

text \<open>
  The rest of a destructured object: its own properties but the named one.
\<close>

definition rest :: "string \<Rightarrow> jsval \<Rightarrow> (string \<times> jsval) list" where
  "rest k v = filter (\<lambda>p. fst p \<noteq> k) (own_props v)"

definition opt_str :: "string option \<Rightarrow> jsval" where
  "opt_str s = (case s of None \<Rightarrow> Undefined | Some x \<Rightarrow> Str x)"

text \<open>\<open>target?.split(sep) ?? []\<close>.\<close>

definition split_opt :: "char \<Rightarrow> string option \<Rightarrow> string list" where
  "split_opt sep s = (case s of None \<Rightarrow> [] | Some x \<Rightarrow> split sep x)"

text \<open>\<open>data[target]\<close>, where an absent target reads the property \<open>undefined\<close>.\<close>

definition at_target :: "(string \<times> jsval) list \<Rightarrow> string option \<Rightarrow> jsval" where
  "at_target data target =
     get (Obj data) (case target of None \<Rightarrow> ''undefined'' | Some k \<Rightarrow> k)"

text \<open>\<open>ver && parseInt(ver)\<close>.\<close>

definition parse_ver :: "string option \<Rightarrow> jsval" where
  "parse_ver ver =
     (case ver of
        None \<Rightarrow> Undefined
      | Some s \<Rightarrow> if s = [] then Str [] else parseInt s)"

definition deserializer_call :: "jsval \<Rightarrow> jsval outcome" where
  "deserializer_call p =
     (if nullish p then Threw TypeError
      else
        let data = rest ''call'' p;
            target = first_key data;
            parts = split_opt CHR ''/'' target;
            service = at parts 0;
            method = at parts 1;
            names = split_opt CHR ''.'' service;
            iface = at names 0;
            ver = at names 1
        in Returned (Obj [(''callId'', get p ''call''), (''iface'', opt_str iface),
                          (''method'', opt_str method), (''ver'', parse_ver ver),
                          (''args'', at_target data target)]))"

definition deserializer_callback :: "jsval \<Rightarrow> jsval outcome" where
  "deserializer_callback p =
     (if nullish p then Threw TypeError
      else Returned (Obj [(''callId'', get p ''callback''), (''result'', get p ''result'')]))"

definition deserializer_event :: "jsval \<Rightarrow> jsval outcome" where
  "deserializer_event p =
     (if nullish p then Threw TypeError
      else
        let data = rest ''event'' p;
            target = first_key data;
            parts = split_opt CHR ''/'' target;
            iface = at parts 0;
            eventName = at parts 1
        in Returned (Obj [(''eventId'', get p ''event''), (''iface'', opt_str iface),
                          (''eventName'', opt_str eventName),
                          (''args'', at_target data target)]))"

definition deserializer_stream :: "jsval \<Rightarrow> jsval outcome" where
  "deserializer_stream p =
     (if nullish p then Threw TypeError
      else Returned (Obj [(''streamId'', get p ''stream''), (''name'', get p ''name''),
                          (''size'', get p ''size''), (''status'', get p ''status'')]))"

text \<open>\<open>error?.message\<close>: \<open>undefined\<close> when \<open>error\<close> is nullish.\<close>

definition deserializer_error :: "jsval \<Rightarrow> jsval outcome" where
  "deserializer_error p =
     (if nullish p then Threw TypeError
      else Returned (Obj [(''callId'', get p ''callback''),
                          (''message'', get (get p ''error'') ''message''),
                          (''code'', get (get p ''error'') ''code'')]))"

fun deserializer :: "kind \<Rightarrow> jsval \<Rightarrow> jsval outcome" where
  "deserializer Call = deserializer_call"
| "deserializer Callback = deserializer_callback"
| "deserializer Event = deserializer_event"
| "deserializer Stream = deserializer_stream"
| "deserializer Error = deserializer_error"

text \<open>
  \<open>deserialize\<close>: the kind is \<open>error\<close> when \<open>packet.error\<close> is truthy, the first key
  otherwise; a falsy kind (no key, or the empty key) gives \<open>null\<close>; the kind's entry of
  \<open>deserializer\<close> is then called without a check that it exists.
\<close>

definition packet_type :: "jsval \<Rightarrow> string option" where
  "packet_type p =
     (if truthy (get p ''error'') then Some ''error'' else first_key (own_props p))"

definition deserialize :: "jsval \<Rightarrow> jsval outcome" where
  "deserialize p =
     (if nullish p then Threw TypeError
      else
        (case packet_type p of
           None \<Rightarrow> Returned Null
         | Some t \<Rightarrow>
             if t = [] then Returned Null
             else
               (case lookup t of
                  Missing \<Rightarrow> Threw TypeError
                | Inherited \<Rightarrow> Delegated t
                | Own k \<Rightarrow>
                    bind (deserializer k p) (\<lambda>data.
                      Returned (Obj [(''type'', Str t), (''data'', data)])))))"

subsection \<open>Field sets and the round trip\<close>

text \<open>
  The names under which the five kinds travel, and the fields of each kind's descriptor.
\<close>

fun kind_name :: "kind \<Rightarrow> string" where
  "kind_name Call = ''call''"
| "kind_name Callback = ''callback''"
| "kind_name Event = ''event''"
| "kind_name Stream = ''stream''"
| "kind_name Error = ''error''"

fun field_names :: "kind \<Rightarrow> string list" where
  "field_names Call = [''callId'', ''iface'', ''ver'', ''method'', ''args'']"
| "field_names Callback = [''callId'', ''result'']"
| "field_names Event = [''eventId'', ''iface'', ''eventName'', ''args'']"
| "field_names Stream = [''streamId'', ''name'', ''size'', ''status'']"
| "field_names Error = [''callId'', ''message'', ''code'']"

text \<open>\<open>Number.isSafeInteger\<close>, on the integers.\<close>

definition safe_integer :: "int \<Rightarrow> bool" where
  "safe_integer n = (- (2 ^ 53 - 1) \<le> n \<and> n \<le> 2 ^ 53 - 1)"

text \<open>
  A valid field set. The routing key \<open>iface[.ver]/method\<close> is taken apart at its
  separators, so an interface name is a string without \<open>/\<close> and \<open>.\<close>, a method or event
  name a string without \<open>/\<close> (an event's interface may hold a \<open>.\<close>), and a version is
  absent or a safe integer other than zero. The other fields are any values.
\<close>

definition is_name :: "string \<Rightarrow> jsval \<Rightarrow> bool" where
  "is_name seps v = (case v of Str s \<Rightarrow> list_all (\<lambda>c. c \<notin> set s) seps | _ \<Rightarrow> False)"

fun valid_ver :: "jsval \<Rightarrow> bool" where
  "valid_ver Undefined = True"
| "valid_ver (Num v) = (v \<noteq> 0 \<and> safe_integer v)"
| "valid_ver _ = False"

fun valid_fields :: "kind \<Rightarrow> jsval \<Rightarrow> bool" where
  "valid_fields Call (Obj kvs) =
     (is_name ''/.'' (get (Obj kvs) ''iface'') \<and> is_name ''/'' (get (Obj kvs) ''method'') \<and>
      valid_ver (get (Obj kvs) ''ver''))"
| "valid_fields Event (Obj kvs) =
     (is_name ''/'' (get (Obj kvs) ''iface'') \<and> is_name ''/'' (get (Obj kvs) ''eventName''))"
| "valid_fields k (Obj kvs) = True"
| "valid_fields k v = False"

text \<open>
  Decoding what was encoded gives the kind back, and every field of the kind with the
  value it had.
\<close>

definition round_trip :: "kind \<Rightarrow> jsval \<Rightarrow> bool" where
  "round_trip k f =
     (case bind (serialize (kind_name k) f) deserialize of
        Returned r \<Rightarrow>
          get r ''type'' = Str (kind_name k) \<and>
          list_all (\<lambda>n. get (get r ''data'') n = get f n) (field_names k)
      | Threw e \<Rightarrow> False
      | Delegated m \<Rightarrow> False)"

text \<open>The characters of a decimal numeral.\<close>

definition decimal :: "char \<Rightarrow> bool" where
  "decimal c = in_range CHR ''0'' CHR ''9'' c"

section \<open>The channel (channel.js)\<close>

subsection \<open>State and collaborators\<close>

text \<open>
  An \<open>Error\<close> object: its message, its stack, and the two optional status fields the
  channel reads, which are numbers when present. \<open>new Error(message)\<close> sets neither; of
  its stack only the first line is modelled.
\<close>

record err =
  err_message :: string
  err_stack :: string
  err_code :: "int option"
  err_httpCode :: "int option"

definition new_Error :: "string \<Rightarrow> err" where
  "new_Error m =
     \<lparr>err_message = m, err_stack = ''Error: '' @ m, err_code = None, err_httpCode = None\<rparr>"

text \<open>
  A session: its token and the data behind the \<open>state\<close> proxy, a mapping. The write-through
  to the session store happens on assignments to \<open>state\<close>, which the channel never makes.
\<close>

record session =
  token :: string
  state :: "(string \<times> jsval) list"

text \<open>
  The context of one invocation, as far as the procedure can tell contexts apart here: the
  session and the account id (each context also has a fresh uuid, an empty state and the
  client facade).
\<close>

record Context =
  ctx_session :: "session option"
  accountId :: jsval

text \<open>
  A procedure of the method registry, as one call meets it: its access level, whether
  \<open>enter()\<close> resolves (\<open>True\<close>) or rejects, and what \<open>invoke(context, args)\<close> settles to: a
  plain value, a returned \<open>Error\<close> (a result whose constructor is named \<open>Error\<close>), or a
  thrown \<open>Error\<close>. What a procedure throws is taken to be an \<open>Error\<close> object.
\<close>

datatype result = Resolved jsval | ResolvedError err | Rejected err

record proc =
  access :: string
  enter :: bool
  invoke :: "Context \<Rightarrow> jsval \<Rightarrow> result"

text \<open>The init data of an inbound stream (\<open>MetaReadable\<close>).\<close>

record readable =
  r_streamId :: jsval
  r_name :: string
  r_size :: int

type_synonym bytes = "nat list"

text \<open>
  What the channel does to its collaborators, in order: the transport (\<open>send\<close>), the
  console, the method registry, the procedure's admission gate (\<open>Enter\<close> with whether it
  resolved) and body, the stream engine, the session store.
  \<open>Unhandled\<close> is an exception thrown inside an \<open>async\<close> method: the promise it returned
  rejects, and nothing awaits it.
\<close>

datatype effect =
    Send jsval "int option"
  | ConsoleError string
  | ConsoleLog string
  | GetMethod jsval jsval jsval
  | Enter bool
  | Invoke Context jsval
  | Leave
  | Push jsval bytes
  | Close jsval
  | Terminate jsval
  | ReadSession string
  | Unhandled exn

text \<open>
  One channel: its bound session, its stream table, the address and request line it logs,
  and the session token of the request's cookie header (\<open>None\<close> when there is no cookie or
  no token in it). The keys of the stream table are compared as values, which is what the
  \<open>Map\<close> does on numbers and strings.
\<close>

record channel =
  session :: "session option"
  streams :: "jsval \<rightharpoonup> readable"
  ip :: string
  req_method :: string
  req_url :: string
  cookie_token :: "string option"

text \<open>
  The process-wide session registry, one channel, and the effects so far.
\<close>

record world =
  sessions :: "string \<rightharpoonup> session"
  chan :: channel
  effects :: "effect list"

text \<open>
  The collaborators that answer: the method registry, Node's table of status phrases, the
  JSON parser (\<open>null\<close> on malformed input) and the chunk codec (an error when it throws).
\<close>

record env =
  getMethod :: "jsval \<Rightarrow> jsval \<Rightarrow> jsval \<Rightarrow> proc option"
  STATUS_CODES :: "int \<Rightarrow> string option"
  jsonParse :: "string \<Rightarrow> jsval"
  Chunk_decode :: "bytes \<Rightarrow> err + int \<times> bytes"

definition emit :: "effect \<Rightarrow> world \<Rightarrow> world" where
  "emit e w = w\<lparr>effects := effects w @ [e]\<rparr>"

definition send :: "jsval \<Rightarrow> int option \<Rightarrow> world \<Rightarrow> world" where
  "send packet httpCode w = emit (Send packet httpCode) w"

subsection \<open>Sessions (the client facade)\<close>

definition initializeSession :: "string \<Rightarrow> (string \<times> jsval) list \<Rightarrow> world \<Rightarrow> bool \<times> world" where
  "initializeSession tok data w =
     (let registry =
            (case session (chan w) of
               None \<Rightarrow> sessions w
             | Some current \<Rightarrow> (sessions w)(token current := None));
          s = \<lparr>token = tok, state = data\<rparr>
      in (True, w\<lparr>sessions := registry(tok \<mapsto> s), chan := (chan w)\<lparr>session := Some s\<rparr>\<rparr>))"

definition finalizeSession :: "string \<Rightarrow> world \<Rightarrow> bool \<times> world" where
  "finalizeSession tok w =
     (case sessions w tok of
        None \<Rightarrow> (False, w)
      | Some s \<Rightarrow>
          (case session (chan w) of
             None \<Rightarrow> (False, w)
           | Some current \<Rightarrow>
               (True, w\<lparr>sessions := (sessions w)(token current := None),
                         chan := (chan w)\<lparr>session := None\<rparr>\<rparr>)))"

definition restoreSession :: "string \<Rightarrow> world \<Rightarrow> bool \<times> world" where
  "restoreSession tok w =
     (case sessions w tok of
        None \<Rightarrow> (False, w)
      | Some s \<Rightarrow> (True, w\<lparr>chan := (chan w)\<lparr>session := Some s\<rparr>\<rparr>))"

text \<open>
  \<open>resumeCookieSession\<close>, up to its \<open>await\<close>: with a token in the cookie it restores the
  session from the registry, and failing that asks the session store; what follows the
  answer of the store runs later and is not part of the call.
\<close>

definition resumeCookieSession :: "world \<Rightarrow> world" where
  "resumeCookieSession w =
     (case cookie_token (chan w) of
        None \<Rightarrow> w
      | Some tok \<Rightarrow>
          if tok = [] then w
          else
            (case restoreSession tok w of
               (True, w') \<Rightarrow> w'
             | (False, w') \<Rightarrow> emit (ReadSession tok) w'))"

subsection \<open>Errors\<close>

text \<open>A status field is truthy when it is present and not zero.\<close>

definition present :: "int option \<Rightarrow> bool" where
  "present c = (case c of None \<Rightarrow> False | Some n \<Rightarrow> n \<noteq> 0)"

text \<open>
  \<open>error(code = 500, { callId, error = null, httpCode = null } = {})\<close>: an absent code is
  500; a falsy \<open>httpCode\<close> becomes \<open>(error && error.httpCode) || code\<close>; the message is
  \<open>pass && error ? error.message : status || 'Unknown error'\<close>. The option \<open>pass\<close> that some
  callers give is not among the destructured ones. \<open>serialize\<close> always returns for the kind
  \<open>error\<close>, so the last two branches are never taken.
\<close>

definition tab :: string where
  "tab = [CHR 0x09]"

definition error :: "env \<Rightarrow> int option \<Rightarrow> jsval \<Rightarrow> err option \<Rightarrow> int option \<Rightarrow> world \<Rightarrow> world" where
  "error env code callId err httpCode w =
     (let code = (case code of None \<Rightarrow> 500 | Some c \<Rightarrow> c);
          httpCode =
            (if present httpCode then the httpCode
             else (case err of
                     None \<Rightarrow> code
                   | Some e \<Rightarrow> if present (err_httpCode e) then the (err_httpCode e) else code));
          status = STATUS_CODES env httpCode;
          pass = (httpCode < 500 \<or> httpCode > 599);
          message =
            (if pass \<and> err \<noteq> None then err_message (the err)
             else (case status of
                     None \<Rightarrow> ''Unknown error''
                   | Some s \<Rightarrow> if s = [] then ''Unknown error'' else s));
          reason = show_int httpCode @ tab @ show_int code @ tab @
            (case err of
               Some e \<Rightarrow> err_stack e
             | None \<Rightarrow> (case status of None \<Rightarrow> ''undefined'' | Some s \<Rightarrow> s));
          w1 = emit (ConsoleError (ip (chan w) @ tab @ req_method (chan w) @ tab @
                                   req_url (chan w) @ tab @ reason)) w
      in (case serialize ''error''
                 (Obj [(''callId'', callId), (''message'', Str message), (''code'', Num code)]) of
            Returned packet \<Rightarrow> send packet (Some httpCode) w1
          | Threw e \<Rightarrow> w1
          | Delegated m \<Rightarrow> w1))"

subsection \<open>Streams\<close>

text \<open>
  \<open>binary\<close>: the chunk codec gives the stream id and the payload, or throws, and a throw
  inside the \<open>try\<close> is answered with a 400 for the call id \<open>0\<close>. The \<open>push\<close> of the stream
  engine is an effect here and does not throw.
\<close>

definition binary :: "env \<Rightarrow> bytes \<Rightarrow> world \<Rightarrow> world" where
  "binary env data w =
     (case Chunk_decode env data of
        Inl e \<Rightarrow> error env (Some 400) (Num 0) (Some e) None w
      | Inr (streamId, payload) \<Rightarrow>
          (case streams (chan w) (Num streamId) of
             Some upstream \<Rightarrow> emit (Push (Num streamId) payload) w
           | None \<Rightarrow>
               error env (Some 400) (Num streamId)
                 (Some (new_Error (''Stream '' @ show_int streamId @ '' is not initialized'')))
                 None w))"

text \<open>\<open>typeof name === 'string'\<close> and \<open>Number.isSafeInteger(size)\<close>.\<close>

fun is_string :: "jsval \<Rightarrow> bool" where
  "is_string (Str s) = True"
| "is_string v = False"

fun isSafeInteger :: "jsval \<Rightarrow> bool" where
  "isSafeInteger (Num n) = safe_integer n"
| "isSafeInteger v = False"

fun the_string :: "jsval \<Rightarrow> string" where
  "the_string (Str s) = s"
| "the_string v = []"

fun the_int :: "jsval \<Rightarrow> int" where
  "the_int (Num n) = n"
| "the_int v = 0"

text \<open>
  \<open>streamHandler\<close>, an \<open>async\<close> method, with the waits for \<open>close()\<close> and \<open>terminate()\<close> run
  to their end before the next frame. An exception (destructuring a nullish packet, a
  stream id or name that does not convert to a string) rejects the promise it returned.
\<close>

definition streamHandler :: "env \<Rightarrow> jsval \<Rightarrow> world \<Rightarrow> world" where
  "streamHandler env d w =
     (if nullish d then emit (Unhandled TypeError) w
      else
        let streamId = get d ''streamId''; name = get d ''name''; size = get d ''size'';
            status = get d ''status''; stream = streams (chan w) streamId
        in
          if truthy name \<and> is_string name \<and> isSafeInteger size then
            (case stream of
               Some s \<Rightarrow>
                 error env (Some 400) streamId
                   (Some (new_Error (''Stream '' @ the_string name @ '' is already initialized'')))
                   None w
             | None \<Rightarrow>
                 w\<lparr>chan := (chan w)\<lparr>streams := (streams (chan w))(streamId \<mapsto>
                   \<lparr>r_streamId = streamId, r_name = the_string name, r_size = the_int size\<rparr>)\<rparr>\<rparr>)
          else
            (case stream of
               None \<Rightarrow>
                 (case to_string streamId of
                    Returned i \<Rightarrow>
                      error env (Some 400) streamId
                        (Some (new_Error (''Stream '' @ i @ '' is not initialized''))) None w
                  | Threw e \<Rightarrow> emit (Unhandled e) w
                  | Delegated m \<Rightarrow> w)
             | Some s \<Rightarrow>
                 if status = Str ''end'' then
                   (let w1 = emit (Close streamId) w
                    in w1\<lparr>chan := (chan w1)\<lparr>streams := (streams (chan w1))(streamId := None)\<rparr>\<rparr>)
                 else if status = Str ''terminate'' then
                   (let w1 = emit (Terminate streamId) w
                    in w1\<lparr>chan := (chan w1)\<lparr>streams := (streams (chan w1))(streamId := None)\<rparr>\<rparr>)
                 else
                   error env (Some 400) streamId
                     (Some (new_Error ''Stream packet structure error'')) None w))"

subsection \<open>Calls\<close>

text \<open>\<open>new Context(channel)\<close>; the account id is set later, in \<open>rpc\<close>.\<close>

definition createContext :: "world \<Rightarrow> Context" where
  "createContext w = \<lparr>ctx_session = session (chan w), accountId = Undefined\<rparr>"

text \<open>
  \<open>rpc\<close>, an \<open>async\<close> method, with its two waits run to their end. A thrown error is
  reported inside the \<open>catch\<close>, before the \<open>finally\<close> releases the gate; a returned one
  after it.
\<close>

definition timeout_remap :: "err \<Rightarrow> err" where
  "timeout_remap e =
     (if err_message e = ''Timeout reached''
      then e\<lparr>err_code := Some 408, err_httpCode := Some 408\<rparr> else e)"

definition rpc :: "env \<Rightarrow> jsval \<Rightarrow> jsval \<Rightarrow> jsval \<Rightarrow> jsval \<Rightarrow> jsval \<Rightarrow> world \<Rightarrow> world" where
  "rpc env callId iface ver method args w =
     (let w0 = emit (GetMethod iface ver method) w in
      case getMethod env iface ver method of
        None \<Rightarrow> error env (Some 404) callId None None w0
      | Some p \<Rightarrow>
          let context = createContext w0 in
          if session (chan w0) = None \<and> access p \<noteq> ''public'' then
            error env (Some 403) callId None None w0
          else if \<not> enter p then
            error env (Some 503) callId None None (emit (Enter False) w0)
          else
            let w1 = emit (Enter True) w0;
                context = context\<lparr>accountId :=
                  (case session (chan w1) of
                     None \<Rightarrow> Undefined
                   | Some s \<Rightarrow> get (Obj (state s)) ''accountId'')\<rparr>;
                w2 = emit (Invoke context args) w1
            in
              (case invoke p context args of
                 Rejected e \<Rightarrow>
                   emit Leave
                     (error env (err_code (timeout_remap e)) callId (Some (timeout_remap e))
                        None w2)
               | ResolvedError e \<Rightarrow>
                   error env (err_code e) callId (Some e)
                     (Some (if present (err_httpCode e) then the (err_httpCode e) else 200))
                     (emit Leave w2)
               | Resolved r \<Rightarrow>
                   (case serialize ''callback'' (Obj [(''callId'', callId), (''result'', r)]) of
                      Returned packet \<Rightarrow>
                        (let w3 = send packet None (emit Leave w2)
                         in case bind (to_string iface) (\<lambda>i.
                                 bind (to_string method) (\<lambda>m. Returned (i @ ''/'' @ m))) of
                              Returned target \<Rightarrow>
                                emit (ConsoleLog (ip (chan w3) @ tab @ target)) w3
                            | Threw e \<Rightarrow> emit (Unhandled e) w3
                            | Delegated m \<Rightarrow> w3)
                    | Threw e \<Rightarrow> emit (Unhandled e) (emit Leave w2)
                    | Delegated m \<Rightarrow> emit Leave w2)))"

text \<open>
  \<open>callHandler\<close>: the session of the cookie is resumed first; a falsy \<open>callId\<close>, \<open>iface\<close>,
  \<open>method\<close> or \<open>args\<close> is answered with a 400; otherwise the call goes to \<open>rpc\<close>.
  Destructuring a nullish packet throws.
\<close>

definition callHandler :: "env \<Rightarrow> jsval \<Rightarrow> world \<Rightarrow> world outcome" where
  "callHandler env d w =
     (if nullish d then Threw TypeError
      else
        let callId = get d ''callId''; iface = get d ''iface''; method = get d ''method'';
            ver = get d ''ver''; args = get d ''args'';
            w1 = resumeCookieSession w
        in
          if \<not> truthy callId \<or> \<not> truthy iface \<or> \<not> truthy method \<or> \<not> truthy args then
            Returned (error env (Some 400) callId
                        (Some (new_Error ''Packet structure error'')) None w1)
          else Returned (rpc env callId iface ver method args w1))"

subsection \<open>Text frames\<close>

text \<open>
  \<open>message\<close>. The result of \<open>deserialize\<close> is destructured as it comes, which throws when it
  is \<open>null\<close>. The handler is read from the channel (\<open>callHandler\<close> and \<open>streamHandler\<close> are
  the only members named so) and called as a plain function, with no \<open>this\<close>: the first
  statement of \<open>callHandler\<close> reads a member of \<open>this\<close> and throws, and \<open>streamHandler\<close>,
  being \<open>async\<close>, returns a promise that rejects for the same reason.
\<close>

definition message :: "env \<Rightarrow> string \<Rightarrow> world \<Rightarrow> world outcome" where
  "message env msg w =
     (if msg = ''{}'' then Returned (send (Str ''{}'') None w)
      else
        let packet = jsonParse env msg in
        if \<not> truthy packet then
          Returned (error env (Some 500) Undefined (Some (new_Error ''JSON parsing error'')) None w)
        else
          bind (deserialize packet) (\<lambda>r.
            if nullish r then Threw TypeError
            else
              let type = get r ''type''; data = get r ''data'' in
              if \<not> truthy type then
                Returned (error env (Some 500) Undefined
                            (Some (new_Error ''Packet structure error'')) None w)
              else
                bind (to_string type) (\<lambda>t.
                  if t @ ''Handler'' = ''callHandler'' then Threw TypeError
                  else if t @ ''Handler'' = ''streamHandler'' then
                    Returned (emit (Unhandled TypeError) w)
                  else Returned w)))"

subsection \<open>The effects of one call\<close>

definition new_effects :: "world \<Rightarrow> world \<Rightarrow> effect list" where
  "new_effects w w' = drop (length (effects w)) (effects w')"

text \<open>The packet of kind \<open>error\<close> on the wire.\<close>

definition error_packet :: "jsval \<Rightarrow> string \<Rightarrow> int \<Rightarrow> jsval" where
  "error_packet callId m c =
     Obj [(''callback'', callId), (''error'', Obj [(''message'', Str m), (''code'', Num c)])]"

text \<open>
  The status the transport is given, in the order the specification states it: the
  explicit \<open>httpCode\<close>, else the error's own, else the supplied code, else 500.
\<close>

definition wire_httpCode :: "int option \<Rightarrow> err option \<Rightarrow> int option \<Rightarrow> int" where
  "wire_httpCode httpCode err code =
     (if present httpCode then the httpCode
      else if err \<noteq> None \<and> present (err_httpCode (the err)) then the (err_httpCode (the err))
      else if code \<noteq> None then the code
      else 500)"

text \<open>The generic phrase of a status: Node's phrase for it, or \<open>Unknown error\<close>.\<close>

definition status_phrase :: "env \<Rightarrow> int \<Rightarrow> string" where
  "status_phrase env h =
     (if STATUS_CODES env h = None \<or> STATUS_CODES env h = Some [] then ''Unknown error''
      else the (STATUS_CODES env h))"

subsection \<open>A sample environment\<close>

text \<open>
  Two text frames: a call of \<open>auth/signIn\<close> with the call id \<open>0\<close>, and the opening packet of
  the stream \<open>1\<close>, named \<open>f\<close>, of size 1000.
\<close>

definition quoted :: "string \<Rightarrow> string" where
  "quoted s = CHR 0x22 # s @ [CHR 0x22]"

definition call_frame :: string where
  "call_frame = ''{'' @ quoted ''call'' @ '':0,'' @ quoted ''auth/signIn'' @ '':{}}''"

definition stream_frame :: string where
  "stream_frame =
     ''{'' @ quoted ''stream'' @ '':1,'' @ quoted ''name'' @ '':'' @ quoted ''f'' @ '','' @
     quoted ''size'' @ '':1000}''"

text \<open>
  Some of Node's status phrases, a registry with the one public method \<open>auth/signIn\<close> that
  echoes its arguments, a parser that knows the frame \<open>{ }\<close> and the two frames above, a chunk
  codec whose chunks are a stream id followed by the payload, and a fresh channel.
\<close>

definition sample_proc :: proc where
  "sample_proc = \<lparr>access = ''public'', enter = True, invoke = (\<lambda>c a. Resolved a)\<rparr>"

definition sample_env :: env where
  "sample_env =
     \<lparr>getMethod = (\<lambda>i v m. if i = Str ''auth'' \<and> m = Str ''signIn'' then Some sample_proc
                              else None),
      STATUS_CODES = map_of [(200, ''OK''), (400, ''Bad Request''), (403, ''Forbidden''),
        (404, ''Not Found''), (408, ''Request Timeout''), (500, ''Internal Server Error''),
        (503, ''Service Unavailable'')],
      jsonParse = (\<lambda>s.
        if s = ''{ }'' then Obj []
        else if s = call_frame then Obj [(''call'', Num 0), (''auth/signIn'', Obj [])]
        else if s = stream_frame then
          Obj [(''stream'', Num 1), (''name'', Str ''f''), (''size'', Num 1000)]
        else Null),
      Chunk_decode = (\<lambda>b. case b of [] \<Rightarrow> Inl (new_Error ''Empty chunk'')
                                | i # payload \<Rightarrow> Inr (int i, payload))\<rparr>"

definition sample_channel :: channel where
  "sample_channel =
     \<lparr>session = None, streams = Map.empty, ip = ''127.0.0.1'', req_method = ''GET'',
      req_url = ''/api'', cookie_token = None\<rparr>"

definition sample_world :: world where
  "sample_world = \<lparr>sessions = Map.empty, chan = sample_channel, effects = []\<rparr>"

text \<open>A registry with two sessions, the channel bound to the first.\<close>

definition two_sessions :: world where
  "two_sessions =
     sample_world\<lparr>sessions := [''a'' \<mapsto> \<lparr>token = ''a'', state = []\<rparr>,
                                ''b'' \<mapsto> \<lparr>token = ''b'', state = []\<rparr>],
                   chan := sample_channel\<lparr>session := Some \<lparr>token = ''a'', state = []\<rparr>\<rparr>\<rparr>"

text \<open>The effects on the method registry and on a procedure.\<close>

fun procedure_effect :: "effect \<Rightarrow> bool" where
  "procedure_effect (GetMethod i v m) = True"
| "procedure_effect (Enter b) = True"
| "procedure_effect (Invoke c a) = True"
| "procedure_effect Leave = True"
| "procedure_effect e = False"

text \<open>The context \<open>rpc\<close> hands to the procedure: that of the channel, with the account id.\<close>

definition call_context :: "world \<Rightarrow> Context" where
  "call_context w =
     (createContext w)\<lparr>accountId :=
        (case session (chan w) of
           None \<Rightarrow> Undefined
         | Some s \<Rightarrow> get (Obj (state s)) ''accountId'')\<rparr>"

text \<open>What one call of \<open>error\<close> does: a logged line, then a packet for the call id.\<close>

definition error_effects :: "jsval \<Rightarrow> effect list \<Rightarrow> bool" where
  "error_effects callId es =
     (\<exists>line m c h. es = [ConsoleError line, Send (error_packet callId m c) (Some h)])"

text \<open>
  Two more procedures, one whose gate is full and one that times out, and the environment
  whose registry resolves every call to a given procedure.
\<close>

definition busy_proc :: proc where
  "busy_proc = sample_proc\<lparr>enter := False\<rparr>"

definition slow_proc :: proc where
  "slow_proc = sample_proc\<lparr>invoke := (\<lambda>c a. Rejected (new_Error ''Timeout reached''))\<rparr>"

definition env_with :: "proc \<Rightarrow> env" where
  "env_with p = sample_env\<lparr>getMethod := (\<lambda>i v m. Some p)\<rparr>"

text \<open>
  The stream packets of the lifecycle: one that opens the stream \<open>k\<close> (a non-empty string
  name and a safe integer size that is not negative), and one that ends it (the status
  \<open>end\<close> and no name).
\<close>

definition init_packet :: "jsval \<Rightarrow> jsval \<Rightarrow> string \<Rightarrow> int \<Rightarrow> bool" where
  "init_packet d k n z =
     (\<not> nullish d \<and> get d ''streamId'' = k \<and> get d ''name'' = Str n \<and> n \<noteq> [] \<and>
      get d ''size'' = Num z \<and> 0 \<le> z \<and> safe_integer z)"

definition end_packet :: "jsval \<Rightarrow> jsval \<Rightarrow> bool" where
  "end_packet d k =
     (\<not> nullish d \<and> get d ''streamId'' = k \<and> get d ''name'' = Undefined \<and>
      get d ''status'' = Str ''end'')"

section \<open>Properties of the packet codec\<close>

subsection \<open>Splitting, printing and parsing\<close>

lemma split_no_sep: "sep \<notin> set s \<Longrightarrow> split sep s = [s]"
  by (induction s) auto

lemma split_at_sep: "sep \<notin> set s \<Longrightarrow> split sep (s @ sep # t) = s # split sep t"
  by (induction s) auto


lemma decimal_digit_char: "d < 10 \<Longrightarrow> decimal (digit_char d)"
  by (simp add: decimal_def in_range_def digit_char_def)

lemma digit_value_char: "d < 10 \<Longrightarrow> digit_value (digit_char d) = Some d"
  by (simp add: digit_value_def in_range_def digit_char_def)

lemma decimal_is_digit: "decimal c \<Longrightarrow> is_digit 10 c"
  by (auto simp: decimal_def is_digit_def digit_value_def in_range_def)

lemma decimal_not_special:
  assumes "decimal c"
  shows "\<not> is_space c" "c \<noteq> CHR ''-''" "c \<noteq> CHR ''+''" "c \<noteq> CHR ''x''" "c \<noteq> CHR ''X''"
    "c \<noteq> CHR ''/''" "c \<noteq> CHR ''.''"
  using assms by (auto simp: decimal_def in_range_def is_space_def)

lemma show_nat_decimal: "\<forall>c \<in> set (show_nat n). decimal c"
proof (induction n rule: show_nat.induct)
  case (1 n)
  show ?case
  proof (cases "n < 10")
    case True
    then show ?thesis by (subst show_nat.simps) (simp add: decimal_digit_char)
  next
    case False
    have "decimal (digit_char (n mod 10))" by (rule decimal_digit_char) simp
    with False 1 show ?thesis by (subst show_nat.simps) simp
  qed
qed

lemma show_nat_nonempty: "show_nat n \<noteq> []"
  by (subst show_nat.simps) simp

lemma digits_value_snoc:
  "digits_value r (z @ [c]) = r * digits_value r z + the (digit_value c)"
  by (simp add: digits_value_def)

lemma digits_value_show_nat: "digits_value 10 (show_nat n) = n"
proof (induction n rule: show_nat.induct)
  case (1 n)
  show ?case
  proof (cases "n < 10")
    case True
    then show ?thesis
      by (subst show_nat.simps) (simp add: digits_value_def digit_value_char)
  next
    case False
    have "digit_value (digit_char (n mod 10)) = Some (n mod 10)"
      by (rule digit_value_char) simp
    with False 1 show ?thesis
      by (subst show_nat.simps) (simp add: digits_value_snoc)
  qed
qed

lemma takeWhile_show_nat: "takeWhile (is_digit 10) (show_nat n) = show_nat n"
  using show_nat_decimal [of n] decimal_is_digit by (simp add: takeWhile_eq_all_conv)

lemma strip_prefix_show_nat: "strip_prefix (show_nat n) = (10, show_nat n)"
proof (cases "show_nat n")
  case Nil
  then show ?thesis by (simp add: strip_prefix_def)
next
  case (Cons c cs)
  show ?thesis
  proof (cases cs)
    case Nil
    with Cons show ?thesis by (simp add: strip_prefix_def)
  next
    case (Cons c' cs')
    with \<open>show_nat n = c # cs\<close> have "decimal c'"
      using show_nat_decimal [of n] by simp
    then have "c' \<noteq> CHR ''x''" "c' \<noteq> CHR ''X''"
      by (rule decimal_not_special)+
    with Cons \<open>show_nat n = c # cs\<close> show ?thesis by (simp add: strip_prefix_def)
  qed
qed

lemma strip_sign_show_nat:
  "strip_sign (dropWhile is_space (show_nat n)) = (False, show_nat n)"
proof (cases "show_nat n")
  case Nil
  then show ?thesis by (simp add: strip_sign_def)
next
  case (Cons c cs)
  then have "decimal c" using show_nat_decimal [of n] by simp
  then have "\<not> is_space c" "c \<noteq> CHR ''-''" "c \<noteq> CHR ''+''"
    by (rule decimal_not_special)+
  with Cons show ?thesis by (simp add: strip_sign_def)
qed

lemma parse_digits:
  "strip_sign (dropWhile is_space s) = (neg, show_nat n) \<Longrightarrow>
   parseInt s = Num ((if neg then - 1 else 1) * int n)"
  by (simp add: parseInt_def strip_prefix_show_nat takeWhile_show_nat
      digits_value_show_nat show_nat_nonempty)

lemma parse_show_int: "parseInt (show_int v) = Num v"
proof (cases "v < 0")
  case False
  then show ?thesis using parse_digits [OF strip_sign_show_nat] by (simp add: show_int_def)
next
  case True
  have "\<not> is_space CHR ''-''" by (simp add: is_space_def)
  then have "strip_sign (dropWhile is_space (show_int v)) = (True, show_nat (nat (- v)))"
    using True by (simp add: show_int_def strip_sign_def)
  from parse_digits [OF this] True show ?thesis by simp
qed

lemma show_int_no_sep: "CHR ''/'' \<notin> set (show_int v)" "CHR ''.'' \<notin> set (show_int v)"
  using show_nat_decimal decimal_not_special(6,7) by (auto simp: show_int_def)

lemma show_int_nonempty: "show_int v \<noteq> []"
  by (simp add: show_int_def show_nat_nonempty)


subsection \<open>Encoding and decoding a call\<close>

lemma slash_key:
  assumes "CHR ''/'' \<in> set k"
  shows "k \<noteq> ''call''" "k \<noteq> ''event''" "k \<noteq> ''error''"
  using assms by auto

lemma at_simps:
  "at [] i = None" "at (x # xs) 0 = Some x" "at (x # xs) (Suc i) = at xs i"
  by (simp_all add: at_def)

lemma lookup_kinds:
  "lookup ''call'' = Own Call" "lookup ''callback'' = Own Callback"
  "lookup ''event'' = Own Event" "lookup ''stream'' = Own Stream"
  "lookup ''error'' = Own Error"
  by (simp_all add: lookup_def)

lemma deserialize_call_packet:
  assumes "CHR ''/'' \<notin> set s" "CHR ''/'' \<notin> set m"
  shows "deserialize (Obj [(''call'', c), (s @ ''/'' @ m, a)]) =
    Returned (Obj [(''type'', Str ''call''),
      (''data'', Obj [(''callId'', c), (''iface'', opt_str (at (split CHR ''.'' s) 0)),
                      (''method'', Str m), (''ver'', parse_ver (at (split CHR ''.'' s) 1)),
                      (''args'', a)])])"
proof -
  let ?k = "s @ ''/'' @ m"
  have k: "?k \<noteq> ''call''" "?k \<noteq> ''error''" by (rule slash_key, simp)+
  have sp: "split CHR ''/'' ?k = [s, m]"
    using assms split_at_sep [of "CHR ''/''" s m] by (simp add: split_no_sep)
  have ty: "packet_type (Obj [(''call'', c), (?k, a)]) = Some ''call''"
    using k by (simp add: packet_type_def first_key_def)
  have de: "deserializer_call (Obj [(''call'', c), (?k, a)]) =
    Returned (Obj [(''callId'', c), (''iface'', opt_str (at (split CHR ''.'' s) 0)),
                      (''method'', Str m), (''ver'', parse_ver (at (split CHR ''.'' s) 1)),
                      (''args'', a)])"
    using k sp
    by (simp add: deserializer_call_def nullish_def rest_def first_key_def split_opt_def
        at_simps at_target_def opt_str_def Let_def)
  show ?thesis using ty de
    by (simp add: deserialize_def nullish_def lookup_kinds)
qed

lemma serialize_call_plain:
  assumes "\<not> nullish d" "\<not> truthy (get d ''ver'')"
    "to_string (get d ''iface'') = Returned i" "to_string (get d ''method'') = Returned m"
  shows "serialize ''call'' d =
    Returned (Obj [(''call'', get d ''callId''), (i @ ''/'' @ m, get d ''args'')])"
proof -
  have "i @ ''/'' @ m \<noteq> ''call''" by (rule slash_key) simp
  then show ?thesis using assms
    by (simp add: serialize_def lookup_kinds serializer_call_def)
qed

lemma serialize_call_versioned:
  assumes "\<not> nullish d" "truthy (get d ''ver'')"
    "to_string (get d ''iface'') = Returned i" "to_string (get d ''ver'') = Returned v"
    "to_string (get d ''method'') = Returned m"
  shows "serialize ''call'' d =
    Returned (Obj [(''call'', get d ''callId''), (i @ ''.'' @ v @ ''/'' @ m, get d ''args'')])"
proof -
  have "i @ ''.'' @ v @ ''/'' @ m \<noteq> ''call''" by (rule slash_key) simp
  then show ?thesis using assms
    by (simp add: serialize_def lookup_kinds serializer_call_def)
qed

subsection \<open>The round trip\<close>

lemma is_nameD: "is_name seps v \<Longrightarrow> \<exists>s. v = Str s \<and> (\<forall>c \<in> set seps. c \<notin> set s)"
  by (cases v) (auto simp: is_name_def list_all_iff)

lemma round_trip_call:
  assumes "valid_fields Call F"
  shows "round_trip Call F"
proof -
  obtain kvs where F: "F = Obj kvs" using assms by (cases F) auto
  from assms F obtain i m where
    i: "get F ''iface'' = Str i" "CHR ''/'' \<notin> set i" "CHR ''.'' \<notin> set i" and
    m: "get F ''method'' = Str m" "CHR ''/'' \<notin> set m" and
    v: "valid_ver (get F ''ver'')"
    by (auto dest!: is_nameD)
  have nn: "\<not> nullish F" using F by (simp add: nullish_def)
  show ?thesis
  proof (cases "get F ''ver''")
    case Undefined
    then have "serialize ''call'' F =
        Returned (Obj [(''call'', get F ''callId''), (i @ ''/'' @ m, get F ''args'')])"
      using serialize_call_plain [OF nn, of i m] i m by simp
    moreover have "split CHR ''.'' i = [i]" using i by (simp add: split_no_sep)
    ultimately show ?thesis
      using deserialize_call_packet [of i m "get F ''callId''" "get F ''args''"] i m Undefined
      by (simp add: round_trip_def at_simps opt_str_def parse_ver_def)
  next
    case (Num n)
    with v have n: "n \<noteq> 0" by simp
    let ?s = "i @ ''.'' @ show_int n"
    have "serialize ''call'' F =
        Returned (Obj [(''call'', get F ''callId''), (?s @ ''/'' @ m, get F ''args'')])"
      using serialize_call_versioned [OF nn, of i "show_int n" m] i m Num n by simp
    moreover have "split CHR ''.'' ?s = [i, show_int n]"
      using i split_at_sep [of "CHR ''.''" i "show_int n"] show_int_no_sep [of n]
      by (simp add: split_no_sep)
    moreover have "CHR ''/'' \<notin> set ?s" using i show_int_no_sep [of n] by simp
    ultimately show ?thesis
      using deserialize_call_packet [of ?s m "get F ''callId''" "get F ''args''"] i m Num
      by (simp add: round_trip_def at_simps opt_str_def parse_ver_def show_int_nonempty
          parse_show_int)
  qed (use v in simp_all)
qed

lemma deserialize_event_packet:
  assumes "CHR ''/'' \<notin> set i" "CHR ''/'' \<notin> set n"
  shows "deserialize (Obj [(''event'', e), (i @ ''/'' @ n, a)]) =
    Returned (Obj [(''type'', Str ''event''),
      (''data'', Obj [(''eventId'', e), (''iface'', Str i), (''eventName'', Str n),
                      (''args'', a)])])"
proof -
  let ?k = "i @ ''/'' @ n"
  have k: "?k \<noteq> ''event''" "?k \<noteq> ''error''" by (rule slash_key, simp)+
  have sp: "split CHR ''/'' ?k = [i, n]"
    using assms split_at_sep [of "CHR ''/''" i n] by (simp add: split_no_sep)
  have ty: "packet_type (Obj [(''event'', e), (?k, a)]) = Some ''event''"
    using k by (simp add: packet_type_def first_key_def)
  have de: "deserializer_event (Obj [(''event'', e), (?k, a)]) =
    Returned (Obj [(''eventId'', e), (''iface'', Str i), (''eventName'', Str n), (''args'', a)])"
    using k sp
    by (simp add: deserializer_event_def nullish_def rest_def first_key_def split_opt_def
        at_simps at_target_def opt_str_def Let_def)
  show ?thesis using ty de
    by (simp add: deserialize_def nullish_def lookup_kinds)
qed

lemma round_trip_event:
  assumes "valid_fields Event F"
  shows "round_trip Event F"
proof -
  obtain kvs where F: "F = Obj kvs" using assms by (cases F) auto
  from assms F obtain i n where
    i: "get F ''iface'' = Str i" "CHR ''/'' \<notin> set i" and
    n: "get F ''eventName'' = Str n" "CHR ''/'' \<notin> set n"
    by (auto dest!: is_nameD)
  have "i @ ''/'' @ n \<noteq> ''event''" by (rule slash_key) simp
  then have "serialize ''event'' F =
      Returned (Obj [(''event'', get F ''eventId''), (i @ ''/'' @ n, get F ''args'')])"
    using F i n by (simp add: serialize_def lookup_kinds serializer_event_def nullish_def)
  then show ?thesis
    using deserialize_event_packet [of i n "get F ''eventId''" "get F ''args''"] i n
    by (simp add: round_trip_def)
qed

lemma round_trip_callback: "round_trip Callback (Obj kvs)"
  by (simp add: round_trip_def serialize_def lookup_kinds serializer_callback_def
      deserialize_def deserializer_callback_def nullish_def packet_type_def first_key_def)

lemma round_trip_stream: "round_trip Stream (Obj kvs)"
  by (simp add: round_trip_def serialize_def lookup_kinds serializer_stream_def
      deserialize_def deserializer_stream_def nullish_def packet_type_def first_key_def)

lemma round_trip_error: "round_trip Error (Obj kvs)"
  by (simp add: round_trip_def serialize_def lookup_kinds serializer_error_def
      deserialize_def deserializer_error_def nullish_def packet_type_def first_key_def)

lemma round_trip_valid: "valid_fields K F \<Longrightarrow> round_trip K F"
proof (cases K)
  case Call
  assume "valid_fields K F"
  with Call show ?thesis using round_trip_call by simp
next
  case Event
  assume "valid_fields K F"
  with Event show ?thesis using round_trip_event by simp
next
  case Callback
  assume "valid_fields K F"
  with Callback show ?thesis using round_trip_callback by (cases F) simp_all
next
  case Stream
  assume "valid_fields K F"
  with Stream show ?thesis using round_trip_stream by (cases F) simp_all
next
  case Error
  assume "valid_fields K F"
  with Error show ?thesis using round_trip_error by (cases F) simp_all
qed

lemma valid_call_not_nullish: "valid_fields Call F \<Longrightarrow> \<not> nullish F"
  by (cases F) (simp_all add: nullish_def)

text \<open>
  Claim C1, as the code has it. For each of the five kinds and every valid field set of the
  kind, decoding the encoded packet returns the kind and every field with its value. A call
  with an integer version \<open>v\<close> other than zero travels under the key \<open>iface.v/method\<close> and
  decodes to the integer \<open>v\<close>; a call with no version travels under \<open>iface/method\<close> and
  decodes to no version.
\<close>

theorem codec_round_trip:
  assumes "valid_fields K F"
  shows "round_trip K F \<and>
    (\<forall>i m v. K = Call \<and> get F ''iface'' = Str i \<and> get F ''method'' = Str m \<and>
        get F ''ver'' = Num v \<longrightarrow>
      serialize ''call'' F =
        Returned (Obj [(''call'', get F ''callId''),
                       (i @ ''.'' @ show_int v @ ''/'' @ m, get F ''args'')])) \<and>
    (\<forall>i m. K = Call \<and> get F ''iface'' = Str i \<and> get F ''method'' = Str m \<and>
        get F ''ver'' = Undefined \<longrightarrow>
      serialize ''call'' F =
        Returned (Obj [(''call'', get F ''callId''), (i @ ''/'' @ m, get F ''args'')]))"
proof (intro conjI allI impI)
  show "round_trip K F" using assms by (rule round_trip_valid)
next
  fix i m v
  assume h: "K = Call \<and> get F ''iface'' = Str i \<and> get F ''method'' = Str m \<and>
    get F ''ver'' = Num v"
  with assms have "v \<noteq> 0" by (cases F) auto
  with h assms show "serialize ''call'' F =
      Returned (Obj [(''call'', get F ''callId''),
                     (i @ ''.'' @ show_int v @ ''/'' @ m, get F ''args'')])"
    using serialize_call_versioned [of F i "show_int v" m] valid_call_not_nullish [of F]
    by simp
next
  fix i m
  assume h: "K = Call \<and> get F ''iface'' = Str i \<and> get F ''method'' = Str m \<and>
    get F ''ver'' = Undefined"
  with assms show "serialize ''call'' F =
      Returned (Obj [(''call'', get F ''callId''), (i @ ''/'' @ m, get F ''args'')])"
    using serialize_call_plain [of F i m] valid_call_not_nullish [of F] by simp
qed

lemma show_int_one: "show_int 1 = ''1''"
  by code_simp

theorem codec_round_trip_witness:
  "valid_fields Call (Obj [(''callId'', Num 1), (''iface'', Str ''auth''), (''ver'', Num 1),
       (''method'', Str ''signIn''), (''args'', Obj [(''email'', Str ''test@gmail.com'')])]) \<and>
   round_trip Call (Obj [(''callId'', Num 1), (''iface'', Str ''auth''), (''ver'', Num 1),
       (''method'', Str ''signIn''), (''args'', Obj [(''email'', Str ''test@gmail.com'')])]) \<and>
   serialize ''call'' (Obj [(''callId'', Num 1), (''iface'', Str ''auth''), (''ver'', Num 1),
       (''method'', Str ''signIn''), (''args'', Obj [(''email'', Str ''test@gmail.com'')])]) =
     Returned (Obj [(''call'', Num 1),
                    (''auth.1/signIn'', Obj [(''email'', Str ''test@gmail.com'')])]) \<and>
   valid_fields Call (Obj [(''callId'', Num 1), (''iface'', Str ''auth''), (''ver'', Undefined),
       (''method'', Str ''signIn''), (''args'', Obj [(''email'', Str ''test@gmail.com'')])]) \<and>
   round_trip Call (Obj [(''callId'', Num 1), (''iface'', Str ''auth''), (''ver'', Undefined),
       (''method'', Str ''signIn''), (''args'', Obj [(''email'', Str ''test@gmail.com'')])]) \<and>
   serialize ''call'' (Obj [(''callId'', Num 1), (''iface'', Str ''auth''), (''ver'', Undefined),
       (''method'', Str ''signIn''), (''args'', Obj [(''email'', Str ''test@gmail.com'')])]) =
     Returned (Obj [(''call'', Num 1),
                    (''auth/signIn'', Obj [(''email'', Str ''test@gmail.com'')])])"
proof -
  let ?F = "Obj [(''callId'', Num 1), (''iface'', Str ''auth''), (''ver'', Num 1),
       (''method'', Str ''signIn''), (''args'', Obj [(''email'', Str ''test@gmail.com'')])]"
  let ?G = "Obj [(''callId'', Num 1), (''iface'', Str ''auth''), (''ver'', Undefined),
       (''method'', Str ''signIn''), (''args'', Obj [(''email'', Str ''test@gmail.com'')])]"
  have v: "valid_fields Call ?F" by (simp add: is_name_def safe_integer_def)
  have u: "valid_fields Call ?G" by (simp add: is_name_def)
  from codec_round_trip [OF v] have 1: "round_trip Call ?F" and
    2: "serialize ''call'' ?F = Returned (Obj [(''call'', Num 1),
          (''auth.1/signIn'', Obj [(''email'', Str ''test@gmail.com'')])])"
    by (simp_all add: show_int_one)
  from codec_round_trip [OF u] have 3: "round_trip Call ?G" and
    4: "serialize ''call'' ?G = Returned (Obj [(''call'', Num 1),
          (''auth/signIn'', Obj [(''email'', Str ''test@gmail.com'')])])"
    by simp_all
  from v u 1 2 3 4 show ?thesis by (intro conjI)
qed

text \<open>
  The version \<open>0\<close> is falsy, so it is left out of the key and does not come back: the round
  trip of claim C1 fails for the integer version \<open>0\<close>.
\<close>

theorem codec_round_trip_version_zero:
  "bind (serialize ''call'' (Obj [(''callId'', Num 1), (''iface'', Str ''auth''), (''ver'', Num 0),
       (''method'', Str ''signIn''), (''args'', Obj [])])) deserialize =
     Returned (Obj [(''type'', Str ''call''),
       (''data'', Obj [(''callId'', Num 1), (''iface'', Str ''auth''), (''method'', Str ''signIn''),
                       (''ver'', Undefined), (''args'', Obj [])])]) \<and>
   \<not> round_trip Call (Obj [(''callId'', Num 1), (''iface'', Str ''auth''), (''ver'', Num 0),
       (''method'', Str ''signIn''), (''args'', Obj [])])"
  by code_simp

subsection \<open>Falsy versions\<close>



subsection \<open>What does not decode\<close>

lemma deserialize_null_iff:
  "deserialize (Obj kvs) = Returned Null \<longleftrightarrow>
     \<not> truthy (get (Obj kvs) ''error'') \<and> (kvs = [] \<or> fst (hd kvs) = [])"
proof (cases kvs)
  case Nil
  then show ?thesis
    by (simp add: deserialize_def nullish_def packet_type_def first_key_def)
next
  case (Cons p ps)
  obtain k v where p: "p = (k, v)" by (cases p)
  show ?thesis
  proof (cases "truthy (get (Obj kvs) ''error'')")
    case True
    then show ?thesis
      by (simp add: deserialize_def nullish_def packet_type_def lookup_kinds
          deserializer_error_def)
  next
    case False
    then have "packet_type (Obj kvs) = Some k"
      using Cons p by (simp add: packet_type_def first_key_def)
    then show ?thesis using False Cons p
      by (cases "lookup k"; cases "deserializer (case lookup k of Own x \<Rightarrow> x) (Obj kvs)")
         (simp_all add: deserialize_def nullish_def)
  qed
qed

lemma deserialize_unknown_key:
  assumes "\<not> truthy (get (Obj ((k, v) # kvs)) ''error'')" "k \<noteq> []" "lookup k = Missing"
  shows "deserialize (Obj ((k, v) # kvs)) = Threw TypeError"
  using assms by (simp add: deserialize_def nullish_def packet_type_def first_key_def)

text \<open>
  Claim C2. The empty object decodes to \<open>null\<close>. An object whose first key names no kind
  does not: the entry \<open>deserializer[type]\<close> is \<open>undefined\<close>, and calling it throws.
\<close>

theorem deserialize_unknown_kind_throws:
  "deserialize (Obj []) = Returned Null \<and>
   deserialize (Obj [(''foo'', Num 1)]) = Threw TypeError \<and>
   serialize ''foo'' (Obj []) = Returned Null"
  by (simp add: deserialize_def nullish_def packet_type_def first_key_def lookup_def
      object_prototype_members_def serialize_def)

section \<open>Properties of the channel\<close>

subsection \<open>Sessions\<close>

text \<open>
  Claim C6. After \<open>initializeSession(tokenA, dataA)\<close> and then
  \<open>initializeSession(tokenB, dataB)\<close> on one channel, with distinct tokens, the registry
  has no entry for \<open>tokenA\<close>, has the new session under \<open>tokenB\<close>, and the channel is bound
  to that session.
\<close>

theorem initializeSession_twice:
  assumes "tokenA \<noteq> tokenB"
  shows "sessions (snd (initializeSession tokenB dataB (snd (initializeSession tokenA dataA w))))
           tokenA = None \<and>
         sessions (snd (initializeSession tokenB dataB (snd (initializeSession tokenA dataA w))))
           tokenB = Some \<lparr>token = tokenB, state = dataB\<rparr> \<and>
         session (chan (snd (initializeSession tokenB dataB
                               (snd (initializeSession tokenA dataA w))))) =
           Some \<lparr>token = tokenB, state = dataB\<rparr> \<and>
         fst (initializeSession tokenA dataA w) \<and>
         fst (initializeSession tokenB dataB (snd (initializeSession tokenA dataA w)))"
  using assms by (simp add: initializeSession_def Let_def split: option.split)

theorem initializeSession_twice_witness:
  "''a'' \<noteq> ''b'' \<and>
   sessions (snd (initializeSession ''b'' [] (snd (initializeSession ''a'' [] sample_world))))
     ''a'' = None \<and>
   sessions (snd (initializeSession ''b'' [] (snd (initializeSession ''a'' [] sample_world))))
     ''b'' = Some \<lparr>token = ''b'', state = []\<rparr> \<and>
   session (chan (snd (initializeSession ''b'' [] (snd (initializeSession ''a'' [] sample_world))))) =
     Some \<lparr>token = ''b'', state = []\<rparr>"
proof -
  have d: "''a'' \<noteq> ''b''" by simp
  from initializeSession_twice [OF d, of "[]" "[]" sample_world] d show ?thesis by blast
qed

text \<open>
  Claim C7. \<open>finalizeSession(token)\<close> returns \<open>false\<close> and changes nothing when the token
  is not registered or the channel has no session. Otherwise it returns \<open>true\<close>, removes
  the token of the channel's current session from the registry, leaves every other entry
  as it was (the entry of \<open>token\<close> too, when that is another session), and unbinds the
  channel.
\<close>

theorem finalizeSession_current:
  "(sessions w tok = None \<or> session (chan w) = None \<longrightarrow> finalizeSession tok w = (False, w)) \<and>
   (sessions w tok \<noteq> None \<and> session (chan w) = Some current \<longrightarrow>
      fst (finalizeSession tok w) \<and>
      sessions (snd (finalizeSession tok w)) (token current) = None \<and>
      (\<forall>t. t \<noteq> token current \<longrightarrow> sessions (snd (finalizeSession tok w)) t = sessions w t) \<and>
      session (chan (snd (finalizeSession tok w))) = None \<and>
      streams (chan (snd (finalizeSession tok w))) = streams (chan w) \<and>
      effects (snd (finalizeSession tok w)) = effects w)"
  by (auto simp: finalizeSession_def split: option.splits)

theorem finalizeSession_current_witness:
  "finalizeSession ''c'' two_sessions = (False, two_sessions) \<and>
   fst (finalizeSession ''b'' two_sessions) \<and>
   sessions (snd (finalizeSession ''b'' two_sessions)) ''a'' = None \<and>
   sessions (snd (finalizeSession ''b'' two_sessions)) ''b'' = Some \<lparr>token = ''b'', state = []\<rparr> \<and>
   session (chan (snd (finalizeSession ''b'' two_sessions))) = None"
proof -
  have c: "sessions two_sessions ''c'' = None \<or> session (chan two_sessions) = None"
    by (simp add: two_sessions_def)
  have b: "sessions two_sessions ''b'' \<noteq> None \<and>
      session (chan two_sessions) = Some \<lparr>token = ''a'', state = []\<rparr>"
    by (simp add: two_sessions_def)
  have k: "sessions two_sessions ''b'' = Some \<lparr>token = ''b'', state = []\<rparr>"
    by (simp add: two_sessions_def)
  from finalizeSession_current [of two_sessions "''c''"] c
  have 1: "finalizeSession ''c'' two_sessions = (False, two_sessions)" by blast
  from finalizeSession_current [of two_sessions "''b''" "\<lparr>token = ''a'', state = []\<rparr>"] b
  have 2: "fst (finalizeSession ''b'' two_sessions) \<and>
      sessions (snd (finalizeSession ''b'' two_sessions)) ''a'' = None \<and>
      (\<forall>t. t \<noteq> ''a'' \<longrightarrow> sessions (snd (finalizeSession ''b'' two_sessions)) t =
         sessions two_sessions t) \<and>
      session (chan (snd (finalizeSession ''b'' two_sessions))) = None"
    by simp
  then have "sessions (snd (finalizeSession ''b'' two_sessions)) ''b'' =
      sessions two_sessions ''b''" by simp
  with 1 2 k show ?thesis by simp
qed
subsection \<open>The error routine\<close>

lemma serialize_error_packet:
  "serialize ''error'' (Obj [(''callId'', c), (''message'', Str m), (''code'', Num n)]) =
     Returned (error_packet c m n)"
  by (simp add: serialize_def lookup_kinds serializer_error_def nullish_def error_packet_def)

lemma error_httpCode:
  "(if present httpCode then the httpCode
    else (case err of
            None \<Rightarrow> (case code of None \<Rightarrow> 500 | Some c \<Rightarrow> c)
          | Some e \<Rightarrow> if present (err_httpCode e) then the (err_httpCode e)
                      else (case code of None \<Rightarrow> 500 | Some c \<Rightarrow> c))) =
   wire_httpCode httpCode err code"
  by (simp add: wire_httpCode_def split: option.split)

lemma error_message:
  "(case STATUS_CODES env h of
      None \<Rightarrow> ''Unknown error''
    | Some s \<Rightarrow> if s = [] then ''Unknown error'' else s) = status_phrase env h"
  by (simp add: status_phrase_def split: option.split)

text \<open>
  Claim C9. Every call of \<open>error\<close> logs one line and sends one packet. The status given to
  the transport is the explicit \<open>httpCode\<close>, else the error's own, else the supplied code,
  else 500. The message of the packet is the error's message when there is an error and
  the status is outside 500 to 599, and the generic phrase of the status otherwise. The
  logged line carries the status, the code and the error's stack whatever the status is,
  and the packet carries the call id and, under \<open>error\<close>, the message and the code only.
\<close>

theorem error_policy:
  "error env code callId err httpCode w =
     (let h = wire_httpCode httpCode err code;
          c = (case code of None \<Rightarrow> 500 | Some c \<Rightarrow> c);
          pass = (h < 500 \<or> h > 599);
          m = (if pass \<and> err \<noteq> None then err_message (the err) else status_phrase env h);
          detail = (case err of
                      Some e \<Rightarrow> err_stack e
                    | None \<Rightarrow> (case STATUS_CODES env h of None \<Rightarrow> ''undefined'' | Some s \<Rightarrow> s))
      in w\<lparr>effects := effects w @
           [ConsoleError (ip (chan w) @ tab @ req_method (chan w) @ tab @ req_url (chan w) @
                          tab @ show_int h @ tab @ show_int c @ tab @ detail),
            Send (Obj [(''callback'', callId),
                       (''error'', Obj [(''message'', Str m), (''code'', Num c)])])
                 (Some h)]\<rparr>)"
  unfolding error_def error_httpCode Let_def error_message serialize_error_packet
  by (simp add: send_def emit_def error_packet_def)

lemma show_int_400: "show_int 400 = ''400''" by code_simp
lemma show_int_500: "show_int 500 = ''500''" by code_simp

theorem error_policy_witness:
  "error sample_env (Some 400) (Num 1) (Some (new_Error ''Invalid data'')) None sample_world =
     sample_world\<lparr>effects :=
       [ConsoleError (''127.0.0.1'' @ tab @ ''GET'' @ tab @ ''/api'' @ tab @ ''400'' @ tab @
                      ''400'' @ tab @ ''Error: Invalid data''),
        Send (Obj [(''callback'', Num 1),
                   (''error'', Obj [(''message'', Str ''Invalid data''), (''code'', Num 400)])])
             (Some 400)]\<rparr> \<and>
   error sample_env None (Num 1) (Some (new_Error ''Invalid data'')) None sample_world =
     sample_world\<lparr>effects :=
       [ConsoleError (''127.0.0.1'' @ tab @ ''GET'' @ tab @ ''/api'' @ tab @ ''500'' @ tab @
                      ''500'' @ tab @ ''Error: Invalid data''),
        Send (Obj [(''callback'', Num 1),
                   (''error'', Obj [(''message'', Str ''Internal Server Error''),
                                    (''code'', Num 500)])])
             (Some 500)]\<rparr>"
  using error_policy [of sample_env "Some 400" "Num 1" "Some (new_Error ''Invalid data'')" None
      sample_world]
    error_policy [of sample_env None "Num 1" "Some (new_Error ''Invalid data'')" None
      sample_world]
  by (simp add: wire_httpCode_def present_def new_Error_def sample_world_def sample_channel_def
      sample_env_def status_phrase_def show_int_400 show_int_500)
lemma error_shape:
  "\<exists>line m c h. error env code callId err httpCode w =
     w\<lparr>effects := effects w @ [ConsoleError line, Send (error_packet callId m c) (Some h)]\<rparr>"
  unfolding error_def Let_def serialize_error_packet
  by (simp add: send_def emit_def split del: if_split, intro exI, rule refl)

lemma error_plain:
  "\<exists>line. error env (Some c) callId None None w =
     w\<lparr>effects := effects w @
        [ConsoleError line, Send (error_packet callId (status_phrase env c) c) (Some c)]\<rparr>"
proof -
  have "error env (Some c) callId None None w =
     w\<lparr>effects := effects w @
        [ConsoleError (ip (chan w) @ tab @ req_method (chan w) @ tab @ req_url (chan w) @ tab @
           show_int c @ tab @ show_int c @ tab @
           (case STATUS_CODES env c of None \<Rightarrow> ''undefined'' | Some s \<Rightarrow> s)),
         Send (error_packet callId (status_phrase env c) c) (Some c)]\<rparr>"
    unfolding error_def Let_def
    by (simp add: serialize_error_packet send_def emit_def status_phrase_def present_def
        split: option.split)
  then show ?thesis by blast
qed

lemma error_400:
  "\<exists>line. error env (Some 400) callId (Some (new_Error m)) None w =
     w\<lparr>effects := effects w @ [ConsoleError line, Send (error_packet callId m 400) (Some 400)]\<rparr>"
proof -
  have "error env (Some 400) callId (Some (new_Error m)) None w =
     w\<lparr>effects := effects w @
        [ConsoleError (ip (chan w) @ tab @ req_method (chan w) @ tab @ req_url (chan w) @ tab @
           show_int 400 @ tab @ show_int 400 @ tab @ err_stack (new_Error m)),
         Send (error_packet callId m 400) (Some 400)]\<rparr>"
    unfolding error_def Let_def
    by (simp add: serialize_error_packet send_def emit_def present_def new_Error_def)
  then show ?thesis by blast
qed

lemma new_effects_append [simp]:
  "new_effects w (w'\<lparr>effects := effects w @ es\<rparr>) = es"
  by (simp add: new_effects_def)

subsection \<open>Text frames that decode to nothing\<close>

lemma message_null_decode:
  assumes "msg \<noteq> ''{}''" "truthy (jsonParse env msg)"
    "deserialize (jsonParse env msg) = Returned Null"
  shows "message env msg w = Threw TypeError"
  using assms by (simp add: message_def nullish_def)

text \<open>
  Claim C3. The frame \<open>{ }\<close> parses to the empty object, which decodes to \<open>null\<close>;
  \<open>message\<close> destructures that \<open>null\<close> and throws, before the test of the kind that would
  have sent the structure error. Nothing is sent.
\<close>

theorem message_null_decode_throws:
  "truthy (jsonParse sample_env ''{ }'') \<and>
   deserialize (jsonParse sample_env ''{ }'') = Returned Null \<and>
   message sample_env ''{ }'' sample_world = Threw TypeError"
proof -
  have p: "jsonParse sample_env ''{ }'' = Obj []" by (simp add: sample_env_def)
  have d: "deserialize (Obj []) = Returned Null"
    by (simp add: deserialize_def nullish_def packet_type_def first_key_def)
  from p d show ?thesis using message_null_decode [of "''{ }''" sample_env sample_world]
    by simp
qed

subsection \<open>Calls and the admission gate\<close>

lemma effects_emit [simp]: "effects (emit e w) = effects w @ [e]"
  by (simp add: emit_def)

lemma chan_emit [simp]: "chan (emit e w) = chan w"
  by (simp add: emit_def)

lemma sessions_emit [simp]: "sessions (emit e w) = sessions w"
  by (simp add: emit_def)

lemma new_effects_self [simp]: "new_effects w w = []"
  by (simp add: new_effects_def)

lemma new_effects_extend:
  "effects w' = effects w @ es \<Longrightarrow> new_effects w w' = es"
  by (simp add: new_effects_def)

lemma resume_effects:
  "\<exists>es. effects (resumeCookieSession w) = effects w @ es \<and> \<not> list_ex procedure_effect es"
  by (auto simp: resumeCookieSession_def restoreSession_def split: option.splits)

lemma error_effects_no_procedure:
  "error_effects callId es \<Longrightarrow> \<not> list_ex procedure_effect es"
  by (auto simp: error_effects_def)

lemma error_appends:
  "\<exists>es. error env code callId err httpCode w = w\<lparr>effects := effects w @ es\<rparr> \<and>
        error_effects callId es"
proof -
  obtain line m c h where "error env code callId err httpCode w =
      w\<lparr>effects := effects w @ [ConsoleError line, Send (error_packet callId m c) (Some h)]\<rparr>"
    using error_shape by blast
  moreover have "error_effects callId
      [ConsoleError line, Send (error_packet callId m c) (Some h)]"
    unfolding error_effects_def by blast
  ultimately show ?thesis by blast
qed

lemma rpc_admitted:
  assumes "getMethod env iface ver method = Some p"
    "\<not> (session (chan w) = None \<and> access p \<noteq> ''public'')" "enter p"
  shows "rpc env callId iface ver method args w =
    (let w2 = emit (Invoke (call_context w) args)
                (emit (Enter True) (emit (GetMethod iface ver method) w))
     in case invoke p (call_context w) args of
           Rejected e \<Rightarrow>
             emit Leave (error env (err_code (timeout_remap e)) callId
                           (Some (timeout_remap e)) None w2)
         | ResolvedError e \<Rightarrow>
             error env (err_code e) callId (Some e)
               (Some (if present (err_httpCode e) then the (err_httpCode e) else 200))
               (emit Leave w2)
         | Resolved r \<Rightarrow>
             (case serialize ''callback'' (Obj [(''callId'', callId), (''result'', r)]) of
                Returned packet \<Rightarrow>
                  (let w3 = send packet None (emit Leave w2)
                   in case bind (to_string iface) (\<lambda>i.
                           bind (to_string method) (\<lambda>m. Returned (i @ ''/'' @ m))) of
                        Returned target \<Rightarrow> emit (ConsoleLog (ip (chan w3) @ tab @ target)) w3
                      | Threw e \<Rightarrow> emit (Unhandled e) w3
                      | Delegated m \<Rightarrow> w3)
              | Threw e \<Rightarrow> emit (Unhandled e) (emit Leave w2)
              | Delegated m \<Rightarrow> emit Leave w2))"
proof -
  let ?w0 = "emit (GetMethod iface ver method) w"
  have ctx: "(createContext ?w0)\<lparr>accountId :=
      (case session (chan (emit (Enter True) ?w0)) of
         None \<Rightarrow> Undefined
       | Some s \<Rightarrow> get (Obj (state s)) ''accountId'')\<rparr> = call_context w"
    by (simp add: call_context_def createContext_def)
  from assms(2) have access: "(session (chan w) = None \<and> access p \<noteq> ''public'') = False"
    by simp
  show ?thesis using assms(1,3) unfolding rpc_def Let_def ctx by (simp add: access)
qed

lemma rpc_effects:
  "case getMethod env iface ver method of
     None \<Rightarrow>
       (\<exists>es. new_effects w (rpc env callId iface ver method args w) =
               GetMethod iface ver method # es \<and> error_effects callId es)
   | Some p \<Rightarrow>
       if session (chan w) = None \<and> access p \<noteq> ''public'' then
         (\<exists>es. new_effects w (rpc env callId iface ver method args w) =
                 GetMethod iface ver method # es \<and> error_effects callId es)
       else if \<not> enter p then
         (\<exists>line. new_effects w (rpc env callId iface ver method args w) =
            [GetMethod iface ver method, Enter False, ConsoleError line,
             Send (error_packet callId (status_phrase env 503) 503) (Some 503)])
       else
         (\<exists>mid post. new_effects w (rpc env callId iface ver method args w) =
            GetMethod iface ver method # Enter True # Invoke (call_context w) args #
              mid @ Leave # post \<and>
            \<not> list_ex procedure_effect (mid @ post))"
proof (cases "getMethod env iface ver method")
  case None
  obtain es where "error env (Some 404) callId None None (emit (GetMethod iface ver method) w) =
      (emit (GetMethod iface ver method) w)\<lparr>effects :=
         effects (emit (GetMethod iface ver method) w) @ es\<rparr>" and e: "error_effects callId es"
    using error_appends by blast
  with None have "effects (rpc env callId iface ver method args w) =
      effects w @ GetMethod iface ver method # es"
    by (simp add: rpc_def Let_def)
  then have "new_effects w (rpc env callId iface ver method args w) =
      GetMethod iface ver method # es"
    by (rule new_effects_extend)
  with e None show ?thesis by simp
next
  case (Some p)
  let ?w0 = "emit (GetMethod iface ver method) w"
  show ?thesis
  proof (cases "session (chan w) = None \<and> access p \<noteq> ''public''")
    case True
    obtain es where "error env (Some 403) callId None None ?w0 =
        ?w0\<lparr>effects := effects ?w0 @ es\<rparr>" and e: "error_effects callId es"
      using error_appends by blast
    with Some True have "effects (rpc env callId iface ver method args w) =
        effects w @ GetMethod iface ver method # es"
      by (simp add: rpc_def Let_def)
    then have "new_effects w (rpc env callId iface ver method args w) =
        GetMethod iface ver method # es"
      by (rule new_effects_extend)
    with e Some True show ?thesis by simp
  next
    case False
    then have access: "(session (chan w) = None \<and> access p \<noteq> ''public'') = False" by simp
    show ?thesis
    proof (cases "enter p")
      case False
      obtain line where "error env (Some 503) callId None None (emit (Enter False) ?w0) =
          (emit (Enter False) ?w0)\<lparr>effects := effects (emit (Enter False) ?w0) @
            [ConsoleError line,
             Send (error_packet callId (status_phrase env 503) 503) (Some 503)]\<rparr>"
        using error_plain by blast
      with Some False have "effects (rpc env callId iface ver method args w) =
          effects w @ [GetMethod iface ver method, Enter False, ConsoleError line,
             Send (error_packet callId (status_phrase env 503) 503) (Some 503)]"
        unfolding rpc_def Let_def by (simp add: access)
      then have "new_effects w (rpc env callId iface ver method args w) =
          [GetMethod iface ver method, Enter False, ConsoleError line,
             Send (error_packet callId (status_phrase env 503) 503) (Some 503)]"
        by (rule new_effects_extend)
      with Some False show ?thesis by (simp add: access)
    next
      case True
      let ?c = "call_context w"
      let ?w2 = "emit (Invoke ?c args) (emit (Enter True) ?w0)"
      let ?pre = "[GetMethod iface ver method, Enter True, Invoke ?c args]"
      have r: "rpc env callId iface ver method args w =
        (case invoke p ?c args of
           Rejected e \<Rightarrow>
             emit Leave (error env (err_code (timeout_remap e)) callId
                           (Some (timeout_remap e)) None ?w2)
         | ResolvedError e \<Rightarrow>
             error env (err_code e) callId (Some e)
               (Some (if present (err_httpCode e) then the (err_httpCode e) else 200))
               (emit Leave ?w2)
         | Resolved r \<Rightarrow>
             (case serialize ''callback'' (Obj [(''callId'', callId), (''result'', r)]) of
                Returned packet \<Rightarrow>
                  (let w3 = send packet None (emit Leave ?w2)
                   in case bind (to_string iface) (\<lambda>i.
                           bind (to_string method) (\<lambda>m. Returned (i @ ''/'' @ m))) of
                        Returned target \<Rightarrow> emit (ConsoleLog (ip (chan w3) @ tab @ target)) w3
                      | Threw e \<Rightarrow> emit (Unhandled e) w3
                      | Delegated m \<Rightarrow> w3)
              | Threw e \<Rightarrow> emit (Unhandled e) (emit Leave ?w2)
              | Delegated m \<Rightarrow> emit Leave ?w2))"
        using rpc_admitted [OF Some \<open>\<not> (session (chan w) = None \<and> access p \<noteq> ''public'')\<close> True]
        by (simp add: Let_def)
      have "\<exists>mid post. effects (rpc env callId iface ver method args w) =
            effects w @ ?pre @ mid @ Leave # post \<and> \<not> list_ex procedure_effect (mid @ post)"
      proof (cases "invoke p ?c args")
        case (Rejected e)
        obtain es where "error env (err_code (timeout_remap e)) callId
            (Some (timeout_remap e)) None ?w2 = ?w2\<lparr>effects := effects ?w2 @ es\<rparr>"
          and e: "error_effects callId es"
          using error_appends by blast
        with Rejected r have "effects (rpc env callId iface ver method args w) =
            effects w @ ?pre @ es @ Leave # []" by simp
        with error_effects_no_procedure [OF e] show ?thesis
          by (intro exI [of _ es] exI [of _ "[]"]) simp
      next
        case (ResolvedError e)
        obtain es where "error env (err_code e) callId (Some e)
            (Some (if present (err_httpCode e) then the (err_httpCode e) else 200))
            (emit Leave ?w2) = (emit Leave ?w2)\<lparr>effects := effects (emit Leave ?w2) @ es\<rparr>"
          and e: "error_effects callId es"
          using error_appends by blast
        with ResolvedError r have "effects (rpc env callId iface ver method args w) =
            effects w @ ?pre @ [] @ Leave # es" by simp
        with error_effects_no_procedure [OF e] show ?thesis
          by (intro exI [of _ "[]"] exI [of _ es]) simp
      next
        case (Resolved v)
        let ?p = "Obj [(''callback'', callId), (''result'', v)]"
        have s: "serialize ''callback'' (Obj [(''callId'', callId), (''result'', v)]) =
            Returned ?p"
          by (simp add: serialize_def lookup_kinds serializer_callback_def nullish_def)
        have "\<exists>post. effects (rpc env callId iface ver method args w) =
            effects w @ ?pre @ [] @ Leave # Send ?p None # post \<and> \<not> list_ex procedure_effect post"
          using Resolved r s
          by (cases "bind (to_string iface) (\<lambda>i.
                 bind (to_string method) (\<lambda>m. Returned (i @ ''/'' @ m)))")
             (simp_all add: send_def)
        then obtain post where "effects (rpc env callId iface ver method args w) =
            effects w @ ?pre @ [] @ Leave # (Send ?p None # post)"
          "\<not> list_ex procedure_effect ([] @ Send ?p None # post)" by auto
        then show ?thesis by blast
      qed
      then obtain mid post where f: "effects (rpc env callId iface ver method args w) =
            effects w @ (?pre @ mid @ Leave # post)"
        and n: "\<not> list_ex procedure_effect (mid @ post)" by auto
      from f have "new_effects w (rpc env callId iface ver method args w) =
          ?pre @ mid @ Leave # post" by (rule new_effects_extend)
      with n Some True show ?thesis by (auto simp: access)
    qed
  qed
qed

lemma count_no_procedure:
  assumes "\<not> list_ex procedure_effect es"
  shows "count_list es Leave = 0" "count_list es (Enter b) = 0"
  using assms by (induction es) auto

lemma error_pass:
  assumes "err_httpCode e = Some h" "h \<noteq> 0" "h < 500 \<or> h > 599"
  shows "\<exists>line. error env (Some c) callId (Some e) None w =
     w\<lparr>effects := effects w @
        [ConsoleError line, Send (error_packet callId (err_message e) c) (Some h)]\<rparr>"
proof -
  have "error env (Some c) callId (Some e) None w =
     w\<lparr>effects := effects w @
        [ConsoleError (ip (chan w) @ tab @ req_method (chan w) @ tab @ req_url (chan w) @ tab @
           show_int h @ tab @ show_int c @ tab @ err_stack e),
         Send (error_packet callId (err_message e) c) (Some h)]\<rparr>"
    using assms unfolding error_def Let_def
    by (auto simp: serialize_error_packet send_def emit_def present_def)
  then show ?thesis by blast
qed

text \<open>
  Claim C5. Among the effects of one \<open>rpc\<close>, the gate is left as often as it was entered
  with success. When the procedure is found, the access check passes and \<open>enter()\<close>
  resolves, the procedure is invoked once and the gate is left once, after the invocation,
  whatever the invocation settles to; a thrown \<open>Timeout reached\<close> is answered with 408
  before the gate is left. When \<open>enter()\<close> rejects, a 503 packet is sent and the procedure
  is neither invoked nor left.
\<close>

theorem rpc_enter_leave_paired:
  "count_list (new_effects w (rpc env callId iface ver method args w)) Leave =
     count_list (new_effects w (rpc env callId iface ver method args w)) (Enter True) \<and>
   (\<forall>p. getMethod env iface ver method = Some p \<and>
        (session (chan w) \<noteq> None \<or> access p = ''public'') \<and> enter p \<longrightarrow>
      (\<exists>mid post. new_effects w (rpc env callId iface ver method args w) =
         GetMethod iface ver method # Enter True # Invoke (call_context w) args #
           mid @ Leave # post \<and>
         \<not> list_ex procedure_effect (mid @ post))) \<and>
   (\<forall>p e. getMethod env iface ver method = Some p \<and>
        (session (chan w) \<noteq> None \<or> access p = ''public'') \<and> enter p \<and>
        invoke p (call_context w) args = Rejected e \<and> err_message e = ''Timeout reached'' \<longrightarrow>
      (\<exists>line. new_effects w (rpc env callId iface ver method args w) =
         [GetMethod iface ver method, Enter True, Invoke (call_context w) args,
          ConsoleError line,
          Send (Obj [(''callback'', callId),
                     (''error'', Obj [(''message'', Str ''Timeout reached''),
                                      (''code'', Num 408)])]) (Some 408),
          Leave])) \<and>
   (\<forall>p. getMethod env iface ver method = Some p \<and>
        (session (chan w) \<noteq> None \<or> access p = ''public'') \<and> \<not> enter p \<longrightarrow>
      (\<exists>line. new_effects w (rpc env callId iface ver method args w) =
         [GetMethod iface ver method, Enter False, ConsoleError line,
          Send (Obj [(''callback'', callId),
                     (''error'', Obj [(''message'', Str (status_phrase env 503)),
                                      (''code'', Num 503)])]) (Some 503)]))"
proof -
  note effects_here = rpc_effects [of w env callId iface ver "method" args]
  show ?thesis
  proof (intro conjI allI impI)
    let ?es = "new_effects w (rpc env callId iface ver method args w)"
    show "count_list ?es Leave = count_list ?es (Enter True)"
    proof (cases "getMethod env iface ver method")
      case None
      with effects_here
      obtain es where "?es = GetMethod iface ver method # es" "error_effects callId es"
        by auto
      then show ?thesis
        using count_no_procedure [OF error_effects_no_procedure, of callId es] by simp
    next
      case (Some p)
      show ?thesis
      proof (cases "session (chan w) = None \<and> access p \<noteq> ''public''")
        case True
        with Some effects_here
        obtain es where "?es = GetMethod iface ver method # es" "error_effects callId es"
          by auto
        then show ?thesis
          using count_no_procedure [OF error_effects_no_procedure, of callId es] by simp
      next
        case False
        then have access: "(session (chan w) = None \<and> access p \<noteq> ''public'') = False" by simp
        show ?thesis
        proof (cases "enter p")
          case False
          with Some access effects_here
          show ?thesis by auto
        next
          case True
          with Some access effects_here
          obtain mid post where "?es = GetMethod iface ver method # Enter True #
              Invoke (call_context w) args # mid @ Leave # post"
            "\<not> list_ex procedure_effect (mid @ post)" by auto
          then show ?thesis
            using count_no_procedure [of mid] count_no_procedure [of post] by simp
        qed
      qed
    qed
  next
    fix p
    assume "getMethod env iface ver method = Some p \<and>
          (session (chan w) \<noteq> None \<or> access p = ''public'') \<and> enter p"
    then show "\<exists>mid post. new_effects w (rpc env callId iface ver method args w) =
           GetMethod iface ver method # Enter True # Invoke (call_context w) args #
             mid @ Leave # post \<and> \<not> list_ex procedure_effect (mid @ post)"
      using effects_here by auto
  next
    fix p e
    assume h: "getMethod env iface ver method = Some p \<and>
          (session (chan w) \<noteq> None \<or> access p = ''public'') \<and> enter p \<and>
          invoke p (call_context w) args = Rejected e \<and> err_message e = ''Timeout reached''"
    let ?w2 = "emit (Invoke (call_context w) args)
                  (emit (Enter True) (emit (GetMethod iface ver method) w))"
    let ?e = "timeout_remap e"
    from h have t: "err_httpCode ?e = Some 408" "err_code ?e = Some 408"
      "err_message ?e = ''Timeout reached''"
      by (simp_all add: timeout_remap_def)
    from h have "rpc env callId iface ver method args w =
        emit Leave (error env (Some 408) callId (Some ?e) None ?w2)"
      using rpc_admitted [of env iface ver "method" p w callId args] t by (auto simp: Let_def)
    moreover obtain line where "error env (Some 408) callId (Some ?e) None ?w2 =
        ?w2\<lparr>effects := effects ?w2 @
          [ConsoleError line, Send (error_packet callId ''Timeout reached'' 408) (Some 408)]\<rparr>"
      using error_pass [of ?e 408 env 408 callId ?w2] t by auto
    ultimately have "effects (rpc env callId iface ver method args w) = effects w @
        [GetMethod iface ver method, Enter True, Invoke (call_context w) args,
         ConsoleError line, Send (error_packet callId ''Timeout reached'' 408) (Some 408), Leave]"
      by simp
    then have "new_effects w (rpc env callId iface ver method args w) =
        [GetMethod iface ver method, Enter True, Invoke (call_context w) args,
         ConsoleError line, Send (error_packet callId ''Timeout reached'' 408) (Some 408), Leave]"
      by (rule new_effects_extend)
    then show "\<exists>line. new_effects w (rpc env callId iface ver method args w) =
           [GetMethod iface ver method, Enter True, Invoke (call_context w) args,
            ConsoleError line,
            Send (Obj [(''callback'', callId),
                       (''error'', Obj [(''message'', Str ''Timeout reached''),
                                        (''code'', Num 408)])]) (Some 408),
            Leave]"
      by (auto simp: error_packet_def)
  next
    fix p
    assume "getMethod env iface ver method = Some p \<and>
          (session (chan w) \<noteq> None \<or> access p = ''public'') \<and> \<not> enter p"
    then show "\<exists>line. new_effects w (rpc env callId iface ver method args w) =
           [GetMethod iface ver method, Enter False, ConsoleError line,
            Send (Obj [(''callback'', callId),
                       (''error'', Obj [(''message'', Str (status_phrase env 503)),
                                        (''code'', Num 503)])]) (Some 503)]"
      using effects_here
      by (auto simp: error_packet_def)
  qed
qed

theorem rpc_enter_leave_paired_witness:
  "count_list (new_effects sample_world
      (rpc (env_with sample_proc) (Num 1) (Str ''auth'') (Num 1) (Str ''signIn'') (Obj [])
         sample_world)) Leave = 1 \<and>
   count_list (new_effects sample_world
      (rpc (env_with sample_proc) (Num 1) (Str ''auth'') (Num 1) (Str ''signIn'') (Obj [])
         sample_world)) (Enter True) = 1 \<and>
   (\<exists>line. new_effects sample_world
      (rpc (env_with slow_proc) (Num 1) (Str ''auth'') (Num 1) (Str ''signIn'') (Obj [])
         sample_world) =
      [GetMethod (Str ''auth'') (Num 1) (Str ''signIn''), Enter True,
       Invoke (call_context sample_world) (Obj []), ConsoleError line,
       Send (Obj [(''callback'', Num 1),
                  (''error'', Obj [(''message'', Str ''Timeout reached''), (''code'', Num 408)])])
            (Some 408),
       Leave]) \<and>
   (\<exists>line. new_effects sample_world
      (rpc (env_with busy_proc) (Num 1) (Str ''auth'') (Num 1) (Str ''signIn'') (Obj [])
         sample_world) =
      [GetMethod (Str ''auth'') (Num 1) (Str ''signIn''), Enter False, ConsoleError line,
       Send (Obj [(''callback'', Num 1),
                  (''error'', Obj [(''message'', Str ''Service Unavailable''),
                                   (''code'', Num 503)])])
            (Some 503)])"
proof -
  let ?rpc = "\<lambda>p. new_effects sample_world
      (rpc (env_with p) (Num 1) (Str ''auth'') (Num 1) (Str ''signIn'') (Obj []) sample_world)"
  note t = rpc_enter_leave_paired [of sample_world _ "Num 1" "Str ''auth''" "Num 1"
      "Str ''signIn''" "Obj []"]
  have ok: "getMethod (env_with sample_proc) (Str ''auth'') (Num 1) (Str ''signIn'') =
        Some sample_proc \<and>
      (session (chan sample_world) \<noteq> None \<or> access sample_proc = ''public'') \<and>
      enter sample_proc"
    by (simp add: env_with_def sample_proc_def)
  have slow: "getMethod (env_with slow_proc) (Str ''auth'') (Num 1) (Str ''signIn'') =
        Some slow_proc \<and>
      (session (chan sample_world) \<noteq> None \<or> access slow_proc = ''public'') \<and>
      enter slow_proc \<and>
      invoke slow_proc (call_context sample_world) (Obj []) =
        Rejected (new_Error ''Timeout reached'') \<and>
      err_message (new_Error ''Timeout reached'') = ''Timeout reached''"
    by (simp add: env_with_def slow_proc_def sample_proc_def new_Error_def)
  have busy: "getMethod (env_with busy_proc) (Str ''auth'') (Num 1) (Str ''signIn'') =
        Some busy_proc \<and>
      (session (chan sample_world) \<noteq> None \<or> access busy_proc = ''public'') \<and>
      \<not> enter busy_proc"
    by (simp add: env_with_def busy_proc_def sample_proc_def)
  from t [of "env_with sample_proc"] ok
  obtain mid post where "?rpc sample_proc =
      GetMethod (Str ''auth'') (Num 1) (Str ''signIn'') # Enter True #
        Invoke (call_context sample_world) (Obj []) # mid @ Leave # post"
    "\<not> list_ex procedure_effect (mid @ post)"
    by blast
  then have 1: "count_list (?rpc sample_proc) Leave = 1"
    using count_no_procedure [of mid] count_no_procedure [of post] by simp
  from t [of "env_with sample_proc"] have "count_list (?rpc sample_proc) Leave =
      count_list (?rpc sample_proc) (Enter True)" by blast
  with 1 have 2: "count_list (?rpc sample_proc) (Enter True) = 1" by simp
  from t [of "env_with slow_proc"] slow
  have 3: "\<exists>line. ?rpc slow_proc =
      [GetMethod (Str ''auth'') (Num 1) (Str ''signIn''), Enter True,
       Invoke (call_context sample_world) (Obj []), ConsoleError line,
       Send (Obj [(''callback'', Num 1),
                  (''error'', Obj [(''message'', Str ''Timeout reached''), (''code'', Num 408)])])
            (Some 408),
       Leave]"
    by blast
  have "status_phrase (env_with busy_proc) 503 = ''Service Unavailable''"
    by (simp add: status_phrase_def env_with_def sample_env_def)
  with t [of "env_with busy_proc"] busy
  have 4: "\<exists>line. ?rpc busy_proc =
      [GetMethod (Str ''auth'') (Num 1) (Str ''signIn''), Enter False, ConsoleError line,
       Send (Obj [(''callback'', Num 1),
                  (''error'', Obj [(''message'', Str ''Service Unavailable''),
                                   (''code'', Num 503)])])
            (Some 503)]"
    by metis
  from 1 2 3 4 show ?thesis by blast
qed

subsection \<open>The structure check of a call\<close>

text \<open>
  The body of \<open>callHandler\<close>, run with the channel as its receiver. A decoded call whose
  \<open>callId\<close>, \<open>iface\<close>, \<open>method\<close> or \<open>args\<close> is falsy (a zero call id, an empty or absent
  name, \<open>null\<close> arguments) is answered, after the session of the cookie was resumed, with
  one logged line and one error packet for its call id, with the code 400 and the message
  \<open>Packet structure error\<close>; the method registry is not asked and no procedure is entered,
  invoked or left. The dispatch of \<open>message\<close> does not run the handler this way: see the
  last subsection.
\<close>

theorem callHandler_structure_check:
  assumes "\<not> nullish d"
    and "\<not> truthy (get d ''callId'') \<or> \<not> truthy (get d ''iface'') \<or>
         \<not> truthy (get d ''method'') \<or> \<not> truthy (get d ''args'')"
  shows "\<exists>w' line. callHandler env d w = Returned w' \<and>
      new_effects (resumeCookieSession w) w' =
        [ConsoleError line,
         Send (Obj [(''callback'', get d ''callId''),
                    (''error'', Obj [(''message'', Str ''Packet structure error''),
                                     (''code'', Num 400)])]) (Some 400)] \<and>
      \<not> list_ex procedure_effect (new_effects w w')"
proof -
  let ?w1 = "resumeCookieSession w"
  obtain line where e: "error env (Some 400) (get d ''callId'')
      (Some (new_Error ''Packet structure error'')) None ?w1 =
      ?w1\<lparr>effects := effects ?w1 @
        [ConsoleError line,
         Send (error_packet (get d ''callId'') ''Packet structure error'' 400) (Some 400)]\<rparr>"
    using error_400 by blast
  let ?w' = "?w1\<lparr>effects := effects ?w1 @
        [ConsoleError line,
         Send (error_packet (get d ''callId'') ''Packet structure error'' 400) (Some 400)]\<rparr>"
  obtain es where r: "effects ?w1 = effects w @ es" "\<not> list_ex procedure_effect es"
    using resume_effects by blast
  have 1: "callHandler env d w = Returned ?w'"
    using assms e by (simp add: callHandler_def Let_def)
  have 2: "new_effects ?w1 ?w' =
      [ConsoleError line,
       Send (error_packet (get d ''callId'') ''Packet structure error'' 400) (Some 400)]"
    by (rule new_effects_extend) simp
  have "new_effects w ?w' = es @
      [ConsoleError line,
       Send (error_packet (get d ''callId'') ''Packet structure error'' 400) (Some 400)]"
    by (rule new_effects_extend) (simp add: r)
  with r have 3: "\<not> list_ex procedure_effect (new_effects w ?w')" by simp
  from 1 2 3 show ?thesis unfolding error_packet_def by blast
qed

theorem callHandler_structure_check_witness:
  "\<not> truthy (Num 0) \<and> \<not> truthy (Str []) \<and> \<not> truthy Null \<and>
   (\<exists>w' line. callHandler sample_env
        (Obj [(''callId'', Num 0), (''iface'', Str ''auth''), (''method'', Str ''signIn''),
              (''ver'', Undefined), (''args'', Obj [])]) sample_world = Returned w' \<and>
      new_effects sample_world w' =
        [ConsoleError line,
         Send (Obj [(''callback'', Num 0),
                    (''error'', Obj [(''message'', Str ''Packet structure error''),
                                     (''code'', Num 400)])]) (Some 400)])"
proof -
  let ?d = "Obj [(''callId'', Num 0), (''iface'', Str ''auth''), (''method'', Str ''signIn''),
              (''ver'', Undefined), (''args'', Obj [])]"
  have n: "\<not> nullish ?d" by (simp add: nullish_def)
  have f: "\<not> truthy (get ?d ''callId'') \<or> \<not> truthy (get ?d ''iface'') \<or>
         \<not> truthy (get ?d ''method'') \<or> \<not> truthy (get ?d ''args'')" by simp
  have r: "resumeCookieSession sample_world = sample_world"
    by (simp add: resumeCookieSession_def sample_world_def sample_channel_def)
  from callHandler_structure_check [OF n f, of sample_env sample_world]
  show ?thesis by (simp add: r) blast
qed

subsection \<open>The life of an inbound stream\<close>

lemma stream_init:
  assumes "init_packet d k n z" "streams (chan w) k = None"
  shows "streamHandler env d w =
    w\<lparr>chan := (chan w)\<lparr>streams := (streams (chan w))(k \<mapsto>
          \<lparr>r_streamId = k, r_name = n, r_size = z\<rparr>)\<rparr>\<rparr>"
  using assms by (simp add: init_packet_def streamHandler_def Let_def)

lemma stream_reinit:
  assumes "init_packet d k n z" "streams (chan w) k = Some s"
  shows "\<exists>line. streamHandler env d w =
    w\<lparr>effects := effects w @
       [ConsoleError line,
        Send (error_packet k (''Stream '' @ n @ '' is already initialized'') 400) (Some 400)]\<rparr>"
proof -
  have "streamHandler env d w = error env (Some 400) k
      (Some (new_Error (''Stream '' @ n @ '' is already initialized''))) None w"
    using assms by (simp add: init_packet_def streamHandler_def Let_def)
  then show ?thesis using error_400 by simp
qed

lemma stream_end:
  assumes "end_packet d k" "streams (chan w) k = Some s"
  shows "streamHandler env d w =
    w\<lparr>effects := effects w @ [Close k],
       chan := (chan w)\<lparr>streams := (streams (chan w))(k := None)\<rparr>\<rparr>"
  using assms by (simp add: end_packet_def streamHandler_def Let_def emit_def)

lemma binary_push:
  assumes "Chunk_decode env data = Inr (i, payload)" "streams (chan w) (Num i) = Some s"
  shows "binary env data w = w\<lparr>effects := effects w @ [Push (Num i) payload]\<rparr>"
  using assms by (simp add: binary_def emit_def)

lemma binary_uninitialized:
  assumes "Chunk_decode env data = Inr (i, payload)" "streams (chan w) (Num i) = None"
  shows "\<exists>line. binary env data w =
    w\<lparr>effects := effects w @
       [ConsoleError line,
        Send (error_packet (Num i) (''Stream '' @ show_int i @ '' is not initialized'') 400)
             (Some 400)]\<rparr>"
proof -
  have "binary env data w = error env (Some 400) (Num i)
      (Some (new_Error (''Stream '' @ show_int i @ '' is not initialized''))) None w"
    using assms by (simp add: binary_def)
  then show ?thesis using error_400 by simp
qed

text \<open>
  The body of \<open>streamHandler\<close>, run with the channel as its receiver, and \<open>binary\<close>. On a
  channel with no stream \<open>i\<close>: an opening packet registers the stream and sends nothing; a
  chunk for \<open>i\<close> is then pushed into it; a second opening packet for \<open>i\<close> is answered with
  a 400 whose message says the stream is already initialized, and leaves the stream
  registered; a packet with the status \<open>end\<close> closes the stream and removes it; a chunk for
  \<open>i\<close> is then answered with a 400 whose message says the stream is not initialized. Each
  handler has run to its end before the next frame. The dispatch of \<open>message\<close> does not run
  the handler this way: see the last subsection.
\<close>

theorem stream_lifecycle:
  assumes "streams (chan w) (Num i) = None"
    and "init_packet d1 (Num i) n1 z1" and "init_packet d2 (Num i) n2 z2"
    and "end_packet d3 (Num i)"
    and "Chunk_decode env data = Inr (i, payload)"
  shows "(let w1 = streamHandler env d1 w; w2 = binary env data w1;
              w3 = streamHandler env d2 w2; w4 = streamHandler env d3 w3;
              w5 = binary env data w4
          in streams (chan w1) (Num i) =
               Some \<lparr>r_streamId = Num i, r_name = n1, r_size = z1\<rparr> \<and>
             new_effects w w1 = [] \<and>
             new_effects w1 w2 = [Push (Num i) payload] \<and>
             (\<exists>line. new_effects w2 w3 =
                [ConsoleError line,
                 Send (Obj [(''callback'', Num i),
                            (''error'', Obj [(''message'',
                                Str (''Stream '' @ n2 @ '' is already initialized'')),
                              (''code'', Num 400)])]) (Some 400)]) \<and>
             streams (chan w3) (Num i) =
               Some \<lparr>r_streamId = Num i, r_name = n1, r_size = z1\<rparr> \<and>
             new_effects w3 w4 = [Close (Num i)] \<and>
             streams (chan w4) (Num i) = None \<and>
             (\<exists>line. new_effects w4 w5 =
                [ConsoleError line,
                 Send (Obj [(''callback'', Num i),
                            (''error'', Obj [(''message'',
                                Str (''Stream '' @ show_int i @ '' is not initialized'')),
                              (''code'', Num 400)])]) (Some 400)]))"
proof -
  let ?s = "\<lparr>r_streamId = Num i, r_name = n1, r_size = z1\<rparr>"
  define w1 where "w1 = streamHandler env d1 w"
  define w2 where "w2 = binary env data w1"
  define w3 where "w3 = streamHandler env d2 w2"
  define w4 where "w4 = streamHandler env d3 w3"
  define w5 where "w5 = binary env data w4"
  have 1: "w1 = w\<lparr>chan := (chan w)\<lparr>streams := (streams (chan w))(Num i \<mapsto> ?s)\<rparr>\<rparr>"
    unfolding w1_def using assms(2,1) by (rule stream_init)
  then have s1: "streams (chan w1) (Num i) = Some ?s" and e1: "new_effects w w1 = []"
    by (simp_all add: new_effects_def)
  have 2: "w2 = w1\<lparr>effects := effects w1 @ [Push (Num i) payload]\<rparr>"
    unfolding w2_def using assms(5) s1 by (rule binary_push)
  then have s2: "streams (chan w2) (Num i) = Some ?s"
    and e2: "new_effects w1 w2 = [Push (Num i) payload]"
    using s1 by (simp_all add: new_effects_def)
  obtain line3 where 3: "w3 = w2\<lparr>effects := effects w2 @
       [ConsoleError line3,
        Send (error_packet (Num i) (''Stream '' @ n2 @ '' is already initialized'') 400)
             (Some 400)]\<rparr>"
    unfolding w3_def using stream_reinit [OF assms(3) s2] by blast
  then have s3: "streams (chan w3) (Num i) = Some ?s"
    and e3: "new_effects w2 w3 = [ConsoleError line3,
        Send (error_packet (Num i) (''Stream '' @ n2 @ '' is already initialized'') 400)
             (Some 400)]"
    using s2 by (simp_all add: new_effects_def)
  have 4: "w4 = w3\<lparr>effects := effects w3 @ [Close (Num i)],
       chan := (chan w3)\<lparr>streams := (streams (chan w3))(Num i := None)\<rparr>\<rparr>"
    unfolding w4_def using assms(4) s3 by (rule stream_end)
  then have s4: "streams (chan w4) (Num i) = None"
    and e4: "new_effects w3 w4 = [Close (Num i)]"
    by (simp_all add: new_effects_def)
  obtain line5 where 5: "w5 = w4\<lparr>effects := effects w4 @
       [ConsoleError line5,
        Send (error_packet (Num i) (''Stream '' @ show_int i @ '' is not initialized'') 400)
             (Some 400)]\<rparr>"
    unfolding w5_def using binary_uninitialized [OF assms(5) s4] by blast
  then have e5: "new_effects w4 w5 = [ConsoleError line5,
        Send (error_packet (Num i) (''Stream '' @ show_int i @ '' is not initialized'') 400)
             (Some 400)]"
    by (simp add: new_effects_def)
  from s1 e1 e2 e3 s3 e4 s4 e5 show ?thesis
    unfolding Let_def w1_def [symmetric] w2_def [symmetric] w3_def [symmetric]
      w4_def [symmetric] w5_def [symmetric] error_packet_def
    by blast
qed

theorem stream_lifecycle_witness:
  "streams (chan sample_world) (Num 1) = None \<and>
   init_packet (Obj [(''streamId'', Num 1), (''name'', Str ''f''), (''size'', Num 1000)])
     (Num 1) ''f'' 1000 \<and>
   end_packet (Obj [(''streamId'', Num 1), (''status'', Str ''end'')]) (Num 1) \<and>
   Chunk_decode sample_env [1, 104, 105] = Inr (1, [104, 105]) \<and>
   (let d = Obj [(''streamId'', Num 1), (''name'', Str ''f''), (''size'', Num 1000)];
        w1 = streamHandler sample_env d sample_world;
        w2 = binary sample_env [1, 104, 105] w1;
        w3 = streamHandler sample_env d w2;
        w4 = streamHandler sample_env (Obj [(''streamId'', Num 1), (''status'', Str ''end'')]) w3;
        w5 = binary sample_env [1, 104, 105] w4
    in streams (chan w1) (Num 1) =
         Some \<lparr>r_streamId = Num 1, r_name = ''f'', r_size = 1000\<rparr> \<and>
       new_effects w1 w2 = [Push (Num 1) [104, 105]] \<and>
       (\<exists>line. new_effects w2 w3 =
          [ConsoleError line,
           Send (Obj [(''callback'', Num 1),
                      (''error'', Obj [(''message'', Str ''Stream f is already initialized''),
                                       (''code'', Num 400)])]) (Some 400)]) \<and>
       new_effects w3 w4 = [Close (Num 1)] \<and>
       streams (chan w4) (Num 1) = None \<and>
       (\<exists>line. new_effects w4 w5 =
          [ConsoleError line,
           Send (Obj [(''callback'', Num 1),
                      (''error'', Obj [(''message'', Str ''Stream 1 is not initialized''),
                                       (''code'', Num 400)])]) (Some 400)]))"
proof -
  let ?d = "Obj [(''streamId'', Num 1), (''name'', Str ''f''), (''size'', Num 1000)]"
  let ?e = "Obj [(''streamId'', Num 1), (''status'', Str ''end'')]"
  have a: "streams (chan sample_world) (Num 1) = None"
    by (simp add: sample_world_def sample_channel_def)
  have b: "init_packet ?d (Num 1) ''f'' 1000"
    by (simp add: init_packet_def nullish_def safe_integer_def)
  have c: "end_packet ?e (Num 1)"
    by (simp add: end_packet_def nullish_def)
  have d: "Chunk_decode sample_env [1, 104, 105] = Inr (1, [104, 105])"
    by (simp add: sample_env_def)
  from stream_lifecycle [OF a b b c d] a b c d show ?thesis
    by (simp add: Let_def show_int_one)
qed

subsection \<open>The dispatch of a decoded packet\<close>

text \<open>
  \<open>message\<close> takes the handler off the channel and calls it as a plain function. A decoded
  call makes \<open>message\<close> throw, a decoded stream packet leaves a rejected promise and the
  channel as it was, and the other kinds have no handler.
\<close>

lemma parse_call_frame:
  "jsonParse sample_env call_frame = Obj [(''call'', Num 0), (''auth/signIn'', Obj [])]"
  by (simp add: sample_env_def call_frame_def quoted_def)

lemma parse_stream_frame:
  "jsonParse sample_env stream_frame =
     Obj [(''stream'', Num 1), (''name'', Str ''f''), (''size'', Num 1000)]"
  by (simp add: sample_env_def call_frame_def stream_frame_def quoted_def)

lemma message_decoded:
  assumes "msg \<noteq> ''{}''" "truthy (jsonParse env msg)"
    "deserialize (jsonParse env msg) = Returned (Obj [(''type'', Str t), (''data'', d)])"
    "t \<noteq> []"
  shows "message env msg w =
    (if t = ''call'' then Threw TypeError
     else if t = ''stream'' then Returned (emit (Unhandled TypeError) w)
     else Returned w)"
  using assms by (simp add: message_def nullish_def Let_def)

text \<open>
  Claim C4. A call packet reaches \<open>callHandler\<close> through \<open>message\<close> only, which calls the
  handler without a receiver. The frame of a call with the call id \<open>0\<close> decodes to a call
  that fails the structure check, but the check is not reached: \<open>message\<close> throws, and no
  packet is sent.
\<close>

theorem message_call_detached:
  "deserialize (jsonParse sample_env call_frame) =
     Returned (Obj [(''type'', Str ''call''),
       (''data'', Obj [(''callId'', Num 0), (''iface'', Str ''auth''), (''method'', Str ''signIn''),
                       (''ver'', Undefined), (''args'', Obj [])])]) \<and>
   message sample_env call_frame sample_world = Threw TypeError"
proof -
  have d: "deserialize (jsonParse sample_env call_frame) =
     Returned (Obj [(''type'', Str ''call''),
       (''data'', Obj [(''callId'', Num 0), (''iface'', Str ''auth''), (''method'', Str ''signIn''),
                       (''ver'', Undefined), (''args'', Obj [])])])"
    unfolding parse_call_frame
    using deserialize_call_packet [of "''auth''" "''signIn''" "Num 0" "Obj []"]
    by (simp add: at_simps opt_str_def parse_ver_def)
  have n: "call_frame \<noteq> ''{}''" by (simp add: call_frame_def quoted_def)
  have t: "truthy (jsonParse sample_env call_frame)" by (simp add: parse_call_frame)
  from message_decoded [OF n t d] d show ?thesis by simp
qed

text \<open>
  Claim C8. A stream packet reaches \<open>streamHandler\<close> through \<open>message\<close> only, which calls
  the handler without a receiver. The opening frame of the stream \<open>1\<close> decodes to an opening
  packet, but the promise of the handler rejects and no stream is registered: the chunk
  for the stream \<open>1\<close> that follows is answered with a 400 whose message says the stream is
  not initialized.
\<close>

theorem message_stream_detached:
  "deserialize (jsonParse sample_env stream_frame) =
     Returned (Obj [(''type'', Str ''stream''),
       (''data'', Obj [(''streamId'', Num 1), (''name'', Str ''f''), (''size'', Num 1000),
                       (''status'', Undefined)])]) \<and>
   message sample_env stream_frame sample_world =
     Returned (emit (Unhandled TypeError) sample_world) \<and>
   streams (chan (emit (Unhandled TypeError) sample_world)) (Num 1) = None \<and>
   (\<exists>line. binary sample_env [1, 104, 105] (emit (Unhandled TypeError) sample_world) =
      (emit (Unhandled TypeError) sample_world)\<lparr>effects :=
         [Unhandled TypeError, ConsoleError line,
          Send (Obj [(''callback'', Num 1),
                     (''error'', Obj [(''message'', Str ''Stream 1 is not initialized''),
                                      (''code'', Num 400)])]) (Some 400)]\<rparr>)"
proof -
  let ?w = "emit (Unhandled TypeError) sample_world"
  have d: "deserialize (jsonParse sample_env stream_frame) =
     Returned (Obj [(''type'', Str ''stream''),
       (''data'', Obj [(''streamId'', Num 1), (''name'', Str ''f''), (''size'', Num 1000),
                       (''status'', Undefined)])])"
    unfolding parse_stream_frame
    by (simp add: deserialize_def nullish_def packet_type_def first_key_def lookup_kinds
        deserializer_stream_def)
  have n: "stream_frame \<noteq> ''{}''" by (simp add: stream_frame_def quoted_def)
  have t: "truthy (jsonParse sample_env stream_frame)" by (simp add: parse_stream_frame)
  from message_decoded [OF n t d] have m: "message sample_env stream_frame sample_world =
      Returned ?w" by simp
  have s: "streams (chan ?w) (Num 1) = None"
    by (simp add: sample_world_def sample_channel_def)
  have c: "Chunk_decode sample_env [1, 104, 105] = Inr (1, [104, 105])"
    by (simp add: sample_env_def)
  from binary_uninitialized [OF c s] obtain line where
    "binary sample_env [1, 104, 105] ?w = ?w\<lparr>effects := effects ?w @
       [ConsoleError line,
        Send (error_packet (Num 1) (''Stream '' @ show_int 1 @ '' is not initialized'') 400)
             (Some 400)]\<rparr>" by blast
  then have "binary sample_env [1, 104, 105] ?w = ?w\<lparr>effects :=
         [Unhandled TypeError, ConsoleError line,
          Send (Obj [(''callback'', Num 1),
                     (''error'', Obj [(''message'', Str ''Stream 1 is not initialized''),
                                      (''code'', Num 400)])]) (Some 400)]\<rparr>"
    by (simp add: show_int_one error_packet_def sample_world_def)
  then have b: "\<exists>line. binary sample_env [1, 104, 105] ?w = ?w\<lparr>effects :=
         [Unhandled TypeError, ConsoleError line,
          Send (Obj [(''callback'', Num 1),
                     (''error'', Obj [(''message'', Str ''Stream 1 is not initialized''),
                                      (''code'', Num 400)])]) (Some 400)]\<rparr>"
    by blast
  from d m s b show ?thesis by (intro conjI)
qed

end
